theory Spec2Isabelle
  imports Main
begin

section \<open>Python values\<close>

text \<open>
  The two hooks (\<^verbatim>\<open>memory_retrieve.py\<close>, \<^verbatim>\<open>memory_save.py\<close>) work on whatever
  \<^verbatim>\<open>json.load\<close> returns, so the model starts with the values of Python's \<^verbatim>\<open>json\<close>
  module. A \<open>string\<close> is a Python \<^verbatim>\<open>str\<close>, one \<open>char\<close> standing for one code
  point (the code points up to 255). A Python \<^verbatim>\<open>dict\<close> is the list of its items in
  insertion order, looked up with \<open>map_of\<close>. A float is not-a-number, an infinity
  (with its sign) or mantissa times two to the exponent; the hooks only ever test a
  float for truth.
\<close>

datatype pyfloat = FNan | FInf bool | FFinite int int

datatype json =
    JNull
  | JBool bool
  | JInt int
  | JFloat pyfloat
  | JStr string
  | JList "json list"
  | JDict "(string \<times> json) list"

text \<open>
  The exceptions the hooks can meet. \<open>RemoteError\<close> stands for any other subclass of
  \<^verbatim>\<open>Exception\<close> raised by the mem0 client.
\<close>

datatype exc =
    JSONDecodeError
  | AttributeError
  | TypeError
  | ValueError
  | OSError
  | ImportError
  | RemoteError

text \<open>Python's truth value of an object, as \<^verbatim>\<open>if x\<close>, \<^verbatim>\<open>not x\<close> and \<^verbatim>\<open>x or y\<close> use it.\<close>

fun float_truthy :: "pyfloat \<Rightarrow> bool" where
  "float_truthy (FFinite m e) = (m \<noteq> 0)"
| "float_truthy FNan = True"
| "float_truthy (FInf s) = True"

fun truthy :: "json \<Rightarrow> bool" where
  "truthy JNull = False"
| "truthy (JBool b) = b"
| "truthy (JInt i) = (i \<noteq> 0)"
| "truthy (JFloat f) = float_truthy f"
| "truthy (JStr s) = (s \<noteq> [])"
| "truthy (JList xs) = (xs \<noteq> [])"
| "truthy (JDict kvs) = (kvs \<noteq> [])"

text \<open>\<^verbatim>\<open>d.get(k, default)\<close> on a dict, and on any object: only a dict has \<^verbatim>\<open>get\<close>.\<close>

definition dict_get :: "(string \<times> json) list \<Rightarrow> string \<Rightarrow> json \<Rightarrow> json" where
  "dict_get kvs k d = (case map_of kvs k of None \<Rightarrow> d | Some v \<Rightarrow> v)"

fun py_get :: "json \<Rightarrow> string \<Rightarrow> json \<Rightarrow> exc + json" where
  "py_get (JDict kvs) k d = Inr (dict_get kvs k d)"
| "py_get _ k d = Inl AttributeError"

text \<open>\<^verbatim>\<open>sep.join(items)\<close>: every item must be a \<^verbatim>\<open>str\<close>, else TypeError.\<close>

fun str_items :: "json list \<Rightarrow> string list option" where
  "str_items [] = Some []"
| "str_items (JStr s # vs) = map_option ((#) s) (str_items vs)"
| "str_items (_ # vs) = None"

fun join_strs :: "string \<Rightarrow> string list \<Rightarrow> string" where
  "join_strs sep [] = []"
| "join_strs sep [s] = s"
| "join_strs sep (s # t # ss) = s @ sep @ join_strs sep (t # ss)"

definition py_join :: "string \<Rightarrow> json list \<Rightarrow> exc + string" where
  "py_join sep vs = (case str_items vs of None \<Rightarrow> Inl TypeError | Some ss \<Rightarrow> Inr (join_strs sep ss))"

text \<open>
  \<^verbatim>\<open>xs[-n:]\<close>. For a positive \<open>n\<close> these are the last \<open>n\<close> elements (all of them when
  there are fewer); \<^verbatim>\<open>xs[-0:]\<close> is \<^verbatim>\<open>xs[0:]\<close>, the whole sequence; for a negative \<open>n\<close>
  the slice starts at index \<open>-n\<close>.
\<close>

definition tail_slice :: "int \<Rightarrow> 'a list \<Rightarrow> 'a list" where
  "tail_slice n xs = (if 0 < n then drop (length xs - nat n) xs else drop (nat (- n)) xs)"

text \<open>
  The items a \<^verbatim>\<open>for\<close> loop sees: the elements of a list, the one-character strings
  of a \<^verbatim>\<open>str\<close>, the keys of a dict. Nothing else that \<^verbatim>\<open>json\<close> produces is iterable.
\<close>

fun py_iter :: "json \<Rightarrow> exc + json list" where
  "py_iter (JList xs) = Inr xs"
| "py_iter (JStr s) = Inr (map (\<lambda>c. JStr [c]) s)"
| "py_iter (JDict kvs) = Inr (map (\<lambda>kv. JStr (fst kv)) kvs)"
| "py_iter _ = Inl TypeError"

section \<open>The save hook: \<^verbatim>\<open>extract_messages\<close>\<close>

text \<open>
  \<^verbatim>\<open>if len(content) > 2000: content = content[:2000] + "..."\<close>
  (memory\_save.py, lines 80 and 81).
\<close>

definition truncate_content :: "string \<Rightarrow> string" where
  "truncate_content c = (if 2000 < length c then take 2000 c @ ''...'' else c)"

text \<open>
  The inner loop over the parts of a list-valued content (lines 71 to 76): a dict whose
  \<^verbatim>\<open>type\<close> is \<^verbatim>\<open>"text"\<close> gives its \<^verbatim>\<open>text\<close> (whatever that is, \<^verbatim>\<open>""\<close> when absent),
  a \<^verbatim>\<open>str\<close> gives itself, any other part is skipped.
\<close>

fun text_parts :: "json list \<Rightarrow> json list" where
  "text_parts [] = []"
| "text_parts (JDict kvs # parts) =
     (if dict_get kvs ''type'' JNull = JStr ''text''
      then dict_get kvs ''text'' (JStr '''') # text_parts parts
      else text_parts parts)"
| "text_parts (JStr s # parts) = JStr s # text_parts parts"
| "text_parts (_ # parts) = text_parts parts"

text \<open>The dict \<^verbatim>\<open>{"role": role, "content": content}\<close> appended to \<^verbatim>\<open>messages\<close>.\<close>

definition mk_message :: "json \<Rightarrow> string \<Rightarrow> json" where
  "mk_message r c = JDict [(''role'', r), (''content'', JStr c)]"

text \<open>
  Lines 79 to 86: what one entry appends to \<^verbatim>\<open>messages\<close>, given its role and its
  derived content.
\<close>

fun keep_message :: "json \<Rightarrow> json \<Rightarrow> json list" where
  "keep_message r (JStr s) = (if truthy r \<and> s \<noteq> [] then [mk_message r (truncate_content s)] else [])"
| "keep_message r _ = []"

text \<open>
  Lines 67 to 77: the content of an entry after a list of parts has been joined.
  \<^verbatim>\<open>" ".join\<close> raises when a text part's \<^verbatim>\<open>text\<close> is not a \<^verbatim>\<open>str\<close>.
\<close>

fun derive_content :: "json \<Rightarrow> exc + json" where
  "derive_content (JList parts) =
     (case py_join '' '' (text_parts parts) of Inl e \<Rightarrow> Inl e | Inr s \<Rightarrow> Inr (JStr s))"
| "derive_content c = Inr c"

text \<open>The body of the loop over \<^verbatim>\<open>recent\<close> (lines 66 to 86) for one entry.\<close>

definition extract_entry :: "json \<Rightarrow> exc + json list" where
  "extract_entry msg =
     (case py_get msg ''role'' (JStr '''') of
        Inl e \<Rightarrow> Inl e
      | Inr r \<Rightarrow>
         (case py_get msg ''content'' (JStr '''') of
            Inl e \<Rightarrow> Inl e
          | Inr c \<Rightarrow>
             (case derive_content c of
                Inl e \<Rightarrow> Inl e
              | Inr c' \<Rightarrow> Inr (keep_message r c'))))"

text \<open>The loop: the first entry that raises ends the function.\<close>

fun collect_messages :: "json list \<Rightarrow> exc + json list" where
  "collect_messages [] = Inr []"
| "collect_messages (msg # rest) =
     (case extract_entry msg of
        Inl e \<Rightarrow> Inl e
      | Inr ms \<Rightarrow>
         (case collect_messages rest of
            Inl e \<Rightarrow> Inl e
          | Inr ms' \<Rightarrow> Inr (ms @ ms')))"

text \<open>
  \<^verbatim>\<open>recent = transcript[-max_messages:]\<close> followed by \<^verbatim>\<open>for msg in recent\<close>. A list and a
  \<^verbatim>\<open>str\<close> can be sliced; slicing a dict, a number or \<^verbatim>\<open>True\<close> raises (TypeError; for
  a dict KeyError from Python 3.12 on, equally uncaught).
\<close>

fun recent_items :: "int \<Rightarrow> json \<Rightarrow> exc + json list" where
  "recent_items n (JList xs) = Inr (tail_slice n xs)"
| "recent_items n (JStr s) = Inr (map (\<lambda>c. JStr [c]) (tail_slice n s))"
| "recent_items n _ = Inl TypeError"

text \<open>
  \<^verbatim>\<open>transcript = input_data.get("transcript", []) or input_data.get("messages", [])\<close>:
  the second \<^verbatim>\<open>get\<close> runs only when the first value is false.
\<close>

definition get_transcript :: "json \<Rightarrow> exc + json" where
  "get_transcript input_data =
     (case py_get input_data ''transcript'' (JList []) of
        Inl e \<Rightarrow> Inl e
      | Inr t \<Rightarrow> if truthy t then Inr t else py_get input_data ''messages'' (JList []))"

definition extract_messages :: "json \<Rightarrow> int \<Rightarrow> exc + json list" where
  "extract_messages input_data max_messages =
     (case get_transcript input_data of
        Inl e \<Rightarrow> Inl e
      | Inr transcript \<Rightarrow>
         if \<not> truthy transcript then Inr []
         else (case recent_items max_messages transcript of
                 Inl e \<Rightarrow> Inl e
               | Inr recent \<Rightarrow> collect_messages recent))"

section \<open>The retrieval hook: \<^verbatim>\<open>format_memories\<close>\<close>

text \<open>
  \<^verbatim>\<open>f"... {memory}"\<close> prints a \<^verbatim>\<open>str\<close> as it is. What Python's \<^verbatim>\<open>str()\<close> prints for any
  other object is the interpreter's business: it is the parameter \<open>repr\<close>.
\<close>

fun py_format :: "(json \<Rightarrow> string) \<Rightarrow> json \<Rightarrow> string" where
  "py_format repr (JStr s) = s"
| "py_format repr v = repr v"

definition memories_header :: string where
  "memories_header = ''## Relevant memories from previous conversations:'' @ [CHR 0x0A]"

text \<open>
  The body of the loop of \<^verbatim>\<open>format_memories\<close> (lines 106 to 112): the lines one result
  appends to \<^verbatim>\<open>memories\<close>. \<^verbatim>\<open>', '.join(categories)\<close> iterates whatever \<^verbatim>\<open>categories\<close> is.
\<close>

definition format_record :: "(json \<Rightarrow> string) \<Rightarrow> json \<Rightarrow> exc + string list" where
  "format_record repr r =
     (case py_get r ''memory'' (JStr '''') of
        Inl e \<Rightarrow> Inl e
      | Inr memory \<Rightarrow>
         if truthy memory then
           (case py_get r ''categories'' (JList []) of
              Inl e \<Rightarrow> Inl e
            | Inr categories \<Rightarrow>
               if truthy categories then
                 (case py_iter categories of
                    Inl e \<Rightarrow> Inl e
                  | Inr items \<Rightarrow>
                     (case py_join '', '' items of
                        Inl e \<Rightarrow> Inl e
                      | Inr cats \<Rightarrow> Inr [''- ['' @ cats @ ''] '' @ py_format repr memory]))
               else Inr [''- '' @ py_format repr memory])
         else Inr [])"

fun format_lines :: "(json \<Rightarrow> string) \<Rightarrow> json list \<Rightarrow> exc + string list" where
  "format_lines repr [] = Inr []"
| "format_lines repr (r # rs) =
     (case format_record repr r of
        Inl e \<Rightarrow> Inl e
      | Inr ls \<Rightarrow>
         (case format_lines repr rs of
            Inl e \<Rightarrow> Inl e
          | Inr ls' \<Rightarrow> Inr (ls @ ls')))"

definition format_memories :: "(json \<Rightarrow> string) \<Rightarrow> json \<Rightarrow> exc + string" where
  "format_memories repr results =
     (case py_iter results of
        Inl e \<Rightarrow> Inl e
      | Inr rs \<Rightarrow>
         (case format_lines repr rs of
            Inl e \<Rightarrow> Inl e
          | Inr memories \<Rightarrow>
             if memories = [] then Inr []
             else Inr (memories_header @ join_strs [CHR 0x0A] memories)))"

section \<open>The process environment and the \<^verbatim>\<open>.env\<close> files\<close>

type_synonym environ = "string \<rightharpoonup> string"

definition environ_get :: "environ \<Rightarrow> string \<Rightarrow> string \<Rightarrow> string" where
  "environ_get env k d = (case env k of None \<Rightarrow> d | Some v \<Rightarrow> v)"

text \<open>
  A \<^verbatim>\<open>.env\<close> file as the hook sees it: absent (\<^verbatim>\<open>exists()\<close> is false), or the lines that
  iterating over the open file delivers, followed by the exception that ends the
  reading early, if any (\<open>File [] (Some OSError)\<close> is a file that cannot be opened).
\<close>

datatype dotenv = NoFile | File "string list" "exc option"

text \<open>
  All that the hooks take from outside the repository: the \<^verbatim>\<open>json\<close> parser, the
  builtins \<^verbatim>\<open>int\<close>, \<^verbatim>\<open>float\<close> (\<open>None\<close> is their ValueError) and \<^verbatim>\<open>str\<close>, the \<^verbatim>\<open>.env\<close>
  file under a root directory and under the current directory, and the mem0 client.
  \<open>client_search\<close> and \<open>client_add\<close> stand for importing \<^verbatim>\<open>mem0\<close>, building the
  \<^verbatim>\<open>MemoryClient\<close> from the API key and calling the method: any of the three may raise.
\<close>

record runtime =
  json_loads :: "string \<Rightarrow> exc + json"
  py_int :: "string \<Rightarrow> int option"
  py_float :: "string \<Rightarrow> pyfloat option"
  py_repr :: "json \<Rightarrow> string"
  dotenv_at :: "string \<Rightarrow> dotenv"
  dotenv_cwd :: dotenv
  client_search :: "string \<Rightarrow> json \<Rightarrow> string \<Rightarrow> int \<Rightarrow> pyfloat \<Rightarrow> exc + json"
  client_add :: "string \<Rightarrow> json \<Rightarrow> string \<Rightarrow> exc + unit"

text \<open>\<^verbatim>\<open>str.strip()\<close> and \<^verbatim>\<open>str.lower()\<close> on the code points up to 255.\<close>

definition is_space :: "char \<Rightarrow> bool" where
  "is_space c = (of_char c \<in> {9, 10, 11, 12, 13, 28, 29, 30, 31, 32, 133, 160 :: nat})"

definition py_strip :: "string \<Rightarrow> string" where
  "py_strip s = rev (dropWhile is_space (rev (dropWhile is_space s)))"

definition lower_char :: "char \<Rightarrow> char" where
  "lower_char c =
     (let n = of_char c :: nat
      in if (65 \<le> n \<and> n \<le> 90) \<or> (192 \<le> n \<and> n \<le> 222 \<and> n \<noteq> 215) then char_of (n + 32) else c)"

definition py_lower :: "string \<Rightarrow> string" where
  "py_lower s = map lower_char s"

text \<open>
  \<^verbatim>\<open>os.environ.setdefault(key, value)\<close>: a key that is set stays as it is. Setting a new
  one goes through \<^verbatim>\<open>putenv\<close>, which raises ValueError for a null character in the name
  or the value and for a name with \<^verbatim>\<open>=\<close> in it, and OSError for an empty name.
\<close>

definition putenv_error :: "string \<Rightarrow> string \<Rightarrow> exc option" where
  "putenv_error k v =
     (if CHR 0x00 \<in> set k \<or> CHR 0x00 \<in> set v \<or> CHR ''='' \<in> set k then Some ValueError
      else if k = [] then Some OSError
      else None)"

definition setdefault :: "environ \<Rightarrow> string \<Rightarrow> string \<Rightarrow> exc + environ" where
  "setdefault env k v =
     (case env k of
        Some old \<Rightarrow> Inr env
      | None \<Rightarrow> (case putenv_error k v of Some e \<Rightarrow> Inl e | None \<Rightarrow> Inr (env(k \<mapsto> v))))"

text \<open>
  The body of the loop over the lines of a file (lines 33 to 36, and again 46 to 49):
  \<^verbatim>\<open>line.split("=", 1)\<close> cuts at the first \<^verbatim>\<open>=\<close>.
\<close>

definition is_definition :: "string \<Rightarrow> bool" where
  "is_definition line = (line \<noteq> [] \<and> take 1 line \<noteq> ''#'' \<and> CHR ''='' \<in> set line)"

definition split_key :: "string \<Rightarrow> string" where
  "split_key line = py_strip (takeWhile (\<lambda>c. c \<noteq> CHR ''='') line)"

definition split_value :: "string \<Rightarrow> string" where
  "split_value line = py_strip (tl (dropWhile (\<lambda>c. c \<noteq> CHR ''='') line))"

definition env_line :: "environ \<Rightarrow> string \<Rightarrow> exc + environ" where
  "env_line env raw =
     (let line = py_strip raw
      in if is_definition line then setdefault env (split_key line) (split_value line)
         else Inr env)"

text \<open>
  Reading a file changes the environment line by line; an exception leaves the changes
  made so far in place. The result is the exception raised, if any, and the environment.
\<close>

fun read_lines :: "string list \<Rightarrow> environ \<Rightarrow> exc option \<times> environ" where
  "read_lines [] env = (None, env)"
| "read_lines (l # ls) env =
     (case env_line env l of
        Inl e \<Rightarrow> (Some e, env)
      | Inr env' \<Rightarrow> read_lines ls env')"

definition read_dotenv :: "string list \<Rightarrow> exc option \<Rightarrow> environ \<Rightarrow> exc option \<times> environ" where
  "read_dotenv ls fail env =
     (case read_lines ls env of
        (Some e, env') \<Rightarrow> (Some e, env')
      | (None, env') \<Rightarrow> (fail, env'))"

text \<open>
  The loop over \<^verbatim>\<open>workspace_roots\<close> (lines 28 to 37): the first root with a \<^verbatim>\<open>.env\<close> file
  is read and ends the loop (\<^verbatim>\<open>break\<close>); \<^verbatim>\<open>Path(root)\<close> raises TypeError for a root that
  is not a \<^verbatim>\<open>str\<close>.
\<close>

fun try_roots :: "runtime \<Rightarrow> json list \<Rightarrow> environ \<Rightarrow> exc option \<times> environ" where
  "try_roots rt [] env = (None, env)"
| "try_roots rt (JStr root # roots) env =
     (case dotenv_at rt root of
        NoFile \<Rightarrow> try_roots rt roots env
      | File ls fail \<Rightarrow> read_dotenv ls fail env)"
| "try_roots rt (_ # roots) env = (Some TypeError, env)"

text \<open>The \<^verbatim>\<open>try\<close> block of \<^verbatim>\<open>load_env_file\<close> (lines 25 to 37).\<close>

definition workspace_env :: "runtime \<Rightarrow> environ \<Rightarrow> exc option \<times> environ" where
  "workspace_env rt env =
     (case json_loads rt (environ_get env ''CURSOR_HOOK_INPUT'' ''{}'') of
        Inl e \<Rightarrow> (Some e, env)
      | Inr input_data \<Rightarrow>
         (case py_get input_data ''workspace_roots'' (JList []) of
            Inl e \<Rightarrow> (Some e, env)
          | Inr workspace_roots \<Rightarrow>
             (case py_iter workspace_roots of
                Inl e \<Rightarrow> (Some e, env)
              | Inr roots \<Rightarrow> try_roots rt roots env)))"

text \<open>
  \<^verbatim>\<open>load_env_file\<close> is the same text in both hooks. The bare \<^verbatim>\<open>except: pass\<close> drops
  whatever the \<^verbatim>\<open>try\<close> block raised; the file of the current directory is read outside
  any \<^verbatim>\<open>try\<close>, so what it raises leaves the function.
\<close>

definition load_env_file :: "runtime \<Rightarrow> environ \<Rightarrow> exc option \<times> environ" where
  "load_env_file rt env =
     (let env1 = snd (workspace_env rt env)
      in case dotenv_cwd rt of
           NoFile \<Rightarrow> (None, env1)
         | File ls fail \<Rightarrow> read_dotenv ls fail env1)"

section \<open>Configuration\<close>

text \<open>
  \<^verbatim>\<open>get_config\<close> returns a dict with fixed keys: a record. The two hooks share the API key
  and the user id; the numeric options differ. \<^verbatim>\<open>int\<close> and \<^verbatim>\<open>float\<close> raise ValueError,
  nothing catches it, and the dict display evaluates \<^verbatim>\<open>top_k\<close> before \<^verbatim>\<open>threshold\<close>.
\<close>

record config =
  api_key :: string
  user_id :: string

record retrieve_config = config +
  top_k :: int
  threshold :: pyfloat
  auto_save :: bool

record save_config = config +
  save_messages :: int

definition get_config_retrieve :: "runtime \<Rightarrow> environ \<Rightarrow> exc + retrieve_config" where
  "get_config_retrieve rt env =
     (case py_int rt (environ_get env ''MEM0_TOP_K'' ''5'') of
        None \<Rightarrow> Inl ValueError
      | Some k \<Rightarrow>
         (case py_float rt (environ_get env ''MEM0_THRESHOLD'' ''0.3'') of
            None \<Rightarrow> Inl ValueError
          | Some t \<Rightarrow>
             Inr \<lparr>api_key = environ_get env ''MEM0_API_KEY'' '''',
                  user_id = environ_get env ''MEM0_USER_ID'' ''cursor-user'',
                  top_k = k,
                  threshold = t,
                  auto_save = (py_lower (environ_get env ''MEM0_AUTO_SAVE'' ''true'') = ''true'')\<rparr>))"

definition get_config_save :: "runtime \<Rightarrow> environ \<Rightarrow> exc + save_config" where
  "get_config_save rt env =
     (case py_int rt (environ_get env ''MEM0_SAVE_MESSAGES'' ''10'') of
        None \<Rightarrow> Inl ValueError
      | Some n \<Rightarrow>
         Inr \<lparr>api_key = environ_get env ''MEM0_API_KEY'' '''',
              user_id = environ_get env ''MEM0_USER_ID'' ''cursor-user'',
              save_messages = n\<rparr>)"

section \<open>The memory service\<close>

text \<open>
  A call of the memory service that a hook attempts: a search (API key, query, user id,
  result count, threshold) or an add (API key, messages, user id). Each function that
  reaches the service returns the calls it attempted next to its result.
\<close>

datatype call =
    Search string json string int pyfloat
  | Add string json string

text \<open>
  \<^verbatim>\<open>search_memories\<close> (lines 63 to 81): a dict answers with its \<^verbatim>\<open>results\<close>, a list with
  itself, anything else and every exception with the empty list.
\<close>

definition search_memories :: "runtime \<Rightarrow> json \<Rightarrow> retrieve_config \<Rightarrow> json \<times> call list" where
  "search_memories rt query config =
     ((case client_search rt (api_key config) query (user_id config) (top_k config)
              (threshold config) of
         Inl e \<Rightarrow> JList []
       | Inr (JDict kvs) \<Rightarrow> dict_get kvs ''results'' (JList [])
       | Inr (JList xs) \<Rightarrow> JList xs
       | Inr other \<Rightarrow> JList []),
      [Search (api_key config) query (user_id config) (top_k config) (threshold config)])"

text \<open>
  \<^verbatim>\<open>save_prompt_async\<close> (lines 84 to 99) starts a thread that adds the prompt as one user
  message, and waits for it for at most two seconds. Whatever the thread does, raises
  or returns is never looked at: the function returns nothing, so the model keeps the
  attempted call only.
\<close>

definition save_prompt_async :: "runtime \<Rightarrow> json \<Rightarrow> retrieve_config \<Rightarrow> call list" where
  "save_prompt_async rt prompt config =
     [Add (api_key config) (JList [JDict [(''role'', JStr ''user''), (''content'', prompt)]])
        (user_id config)]"

text \<open>\<^verbatim>\<open>save_memories\<close> of the save hook (lines 91 to 102).\<close>

definition save_memories :: "runtime \<Rightarrow> json list \<Rightarrow> save_config \<Rightarrow> bool \<times> call list" where
  "save_memories rt messages config =
     ((case client_add rt (api_key config) (JList messages) (user_id config) of
         Inl e \<Rightarrow> False
       | Inr u \<Rightarrow> True),
      [Add (api_key config) (JList messages) (user_id config)])"

section \<open>The entry points\<close>

text \<open>
  What a run of a hook leaves behind: the documents printed on standard output, the
  exit status, the exception that ended the run if one did, and the calls of the memory
  service it attempted. An exception that nothing catches ends the process with status
  1 and nothing printed (every \<^verbatim>\<open>print\<close> of the hooks is the last thing a path does).
\<close>

record outcome =
  stdout :: "json list"
  exit_status :: int
  uncaught :: "exc option"
  calls :: "call list"

definition emit :: "json \<Rightarrow> call list \<Rightarrow> outcome" where
  "emit doc cs = \<lparr>stdout = [doc], exit_status = 0, uncaught = None, calls = cs\<rparr>"

definition crash :: "exc \<Rightarrow> call list \<Rightarrow> outcome" where
  "crash e cs = \<lparr>stdout = [], exit_status = 1, uncaught = Some e, calls = cs\<rparr>"

definition default_result :: json where
  "default_result = JDict [(''action'', JStr ''continue'')]"

definition context_result :: "string \<Rightarrow> json" where
  "context_result message = JDict [(''action'', JStr ''continue''), (''context'', JStr message)]"

text \<open>
  \<^verbatim>\<open>user_prompt = input_data.get("prompt", "") or input_data.get("query", "")\<close>
  (memory\_retrieve.py, line 132).
\<close>

definition get_prompt :: "json \<Rightarrow> exc + json" where
  "get_prompt input_data =
     (case py_get input_data ''prompt'' (JStr '''') of
        Inl e \<Rightarrow> Inl e
      | Inr p \<Rightarrow> if truthy p then Inr p else py_get input_data ''query'' (JStr ''''))"

text \<open>Lines 143 to 161 of memory\_retrieve.py: search, save the prompt, format.\<close>

definition retrieve_work :: "runtime \<Rightarrow> json \<Rightarrow> retrieve_config \<Rightarrow> outcome" where
  "retrieve_work rt user_prompt config =
     (let found = search_memories rt user_prompt config;
          results = fst found;
          cs = snd found @ (if auto_save config then save_prompt_async rt user_prompt config else [])
      in if truthy results then
           (case format_memories (py_repr rt) results of
              Inl e \<Rightarrow> crash e cs
            | Inr message \<Rightarrow>
               if message \<noteq> [] then emit (context_result message) cs
               else emit default_result cs)
         else emit default_result cs)"

text \<open>
  \<^verbatim>\<open>main\<close> of memory\_retrieve.py, run in the process environment \<open>environ0\<close> on the
  text \<open>stdin\<close>. Only \<^verbatim>\<open>json.JSONDecodeError\<close> is caught.
\<close>

definition main_retrieve :: "runtime \<Rightarrow> environ \<Rightarrow> string \<Rightarrow> outcome" where
  "main_retrieve rt environ0 stdin =
     (case load_env_file rt environ0 of
        (Some e, env) \<Rightarrow> crash e []
      | (None, env) \<Rightarrow>
         (case json_loads rt stdin of
            Inl e \<Rightarrow> if e = JSONDecodeError then emit default_result [] else crash e []
          | Inr input_data \<Rightarrow>
             (case get_prompt input_data of
                Inl e \<Rightarrow> crash e []
              | Inr user_prompt \<Rightarrow>
                 if \<not> truthy user_prompt then emit default_result []
                 else
                   (case get_config_retrieve rt env of
                      Inl e \<Rightarrow> crash e []
                    | Inr config \<Rightarrow>
                       if api_key config = [] then emit default_result []
                       else retrieve_work rt user_prompt config))))"

text \<open>\<^verbatim>\<open>main\<close> of memory\_save.py.\<close>

definition main_save :: "runtime \<Rightarrow> environ \<Rightarrow> string \<Rightarrow> outcome" where
  "main_save rt environ0 stdin =
     (case load_env_file rt environ0 of
        (Some e, env) \<Rightarrow> crash e []
      | (None, env) \<Rightarrow>
         (case json_loads rt stdin of
            Inl e \<Rightarrow> if e = JSONDecodeError then emit default_result [] else crash e []
          | Inr input_data \<Rightarrow>
             (case get_config_save rt env of
                Inl e \<Rightarrow> crash e []
              | Inr config \<Rightarrow>
                 if api_key config = [] then emit default_result []
                 else
                   (case extract_messages input_data (save_messages config) of
                      Inl e \<Rightarrow> crash e []
                    | Inr messages \<Rightarrow>
                       if messages \<noteq> [] then
                         emit default_result (snd (save_memories rt messages config))
                       else emit default_result []))))"

section \<open>Specifications and sample inputs\<close>

text \<open>The most recent \<open>n\<close> elements of a sequence.\<close>

definition most_recent :: "nat \<Rightarrow> 'a list \<Rightarrow> 'a list" where
  "most_recent n xs = drop (length xs - n) xs"

text \<open>
  The transcript shape in the specification's words. A part of a list-valued content
  counts when it is a plain string or a structured part tagged as text; the parts that
  count are joined with single spaces. A part tagged as text whose \<^verbatim>\<open>text\<close> is not a
  string cannot be read.
\<close>

fun text_of_part :: "json \<Rightarrow> string option" where
  "text_of_part (JStr s) = Some s"
| "text_of_part (JDict kvs) =
     (if map_of kvs ''type'' = Some (JStr ''text'')
      then (case map_of kvs ''text'' of
              None \<Rightarrow> Some []
            | Some (JStr t) \<Rightarrow> Some t
            | Some other \<Rightarrow> None)
      else None)"
| "text_of_part other = None"

fun bad_part :: "json \<Rightarrow> bool" where
  "bad_part (JDict kvs) =
     (map_of kvs ''type'' = Some (JStr ''text'') \<and>
      (case map_of kvs ''text'' of
         None \<Rightarrow> False
       | Some (JStr t) \<Rightarrow> False
       | Some other \<Rightarrow> True))"
| "bad_part other = False"

fun spaced :: "string list \<Rightarrow> string" where
  "spaced [] = []"
| "spaced (s # ss) = s @ concat (map (\<lambda>t. CHR '' '' # t) ss)"

text \<open>
  An entry cannot be read when it is not an object (AttributeError) or when its content
  is a list with a part that cannot be read (TypeError); \<open>first_error\<close> is the error of
  the first such entry of a list.
\<close>

fun entry_error :: "json \<Rightarrow> exc option" where
  "entry_error (JDict kvs) =
     (case map_of kvs ''content'' of
        Some (JList parts) \<Rightarrow> if list_ex bad_part parts then Some TypeError else None
      | other \<Rightarrow> None)"
| "entry_error other = Some AttributeError"

fun first_error :: "json list \<Rightarrow> exc option" where
  "first_error [] = None"
| "first_error (e # es) = (case entry_error e of Some x \<Rightarrow> Some x | None \<Rightarrow> first_error es)"

text \<open>
  The role and the derived content of an object entry, and the normalized message of a
  valid entry. An entry is dropped when its role is missing (absent, or false in
  Python's sense), when it has no usable content (absent or empty) and when its derived
  content is not a string. A kept content of more than 2000 characters is cut to 2000
  characters followed by the marker.
\<close>

definition entry_role :: "(string \<times> json) list \<Rightarrow> json" where
  "entry_role kvs = (case map_of kvs ''role'' of None \<Rightarrow> JStr [] | Some r \<Rightarrow> r)"

definition derived_content :: "(string \<times> json) list \<Rightarrow> json" where
  "derived_content kvs =
     (case map_of kvs ''content'' of
        None \<Rightarrow> JStr []
      | Some (JList parts) \<Rightarrow> JStr (spaced (List.map_filter text_of_part parts))
      | Some c \<Rightarrow> c)"

fun valid_message :: "json \<Rightarrow> json list" where
  "valid_message (JDict kvs) =
     (case derived_content kvs of
        JStr c \<Rightarrow>
          if truthy (entry_role kvs) \<and> c \<noteq> []
          then [JDict [(''role'', entry_role kvs),
                       (''content'',
                        JStr (if 2000 < length c then take 2000 c @ ''...'' else c))]]
          else []
      | other \<Rightarrow> [])"
| "valid_message other = []"

text \<open>
  Two orders of normalising a transcript. The specification's words: drop the invalid
  entries of the whole transcript, then keep the most recent \<open>n\<close>.
\<close>

definition valid_then_recent :: "json list \<Rightarrow> nat \<Rightarrow> json list" where
  "valid_then_recent ts n = most_recent n (concat (map valid_message ts))"

text \<open>The other order: keep the most recent \<open>n\<close> entries, then drop the invalid ones.\<close>

definition recent_then_valid :: "json list \<Rightarrow> nat \<Rightarrow> json list" where
  "recent_then_valid ts n = concat (map valid_message (most_recent n ts))"

text \<open>
  A text message: a dict with a role that counts as true and a content that is a
  non-empty \<^verbatim>\<open>str\<close>; and the normalized message it stands for.
\<close>

definition text_entry :: "json \<Rightarrow> bool" where
  "text_entry e =
     (case e of
        JDict kvs \<Rightarrow>
          truthy (dict_get kvs ''role'' (JStr '''')) \<and>
          (case dict_get kvs ''content'' (JStr '''') of JStr c \<Rightarrow> c \<noteq> [] | _ \<Rightarrow> False)
      | _ \<Rightarrow> False)"

definition normalized :: "json \<Rightarrow> json" where
  "normalized e =
     (case e of
        JDict kvs \<Rightarrow>
          (case dict_get kvs ''content'' (JStr '''') of
             JStr c \<Rightarrow> mk_message (dict_get kvs ''role'' (JStr '''')) (truncate_content c)
           | _ \<Rightarrow> e)
      | _ \<Rightarrow> e)"

definition user_says :: "string \<Rightarrow> json" where
  "user_says c = JDict [(''role'', JStr ''user''), (''content'', JStr c)]"

text \<open>
  A runtime for concrete runs: the text \<^verbatim>\<open>{}\<close> parses to the empty dict and every other
  text to \<open>parsed\<close>; \<^verbatim>\<open>int\<close> reads \<^verbatim>\<open>5\<close> and \<^verbatim>\<open>10\<close>, \<^verbatim>\<open>float\<close> reads \<^verbatim>\<open>0.3\<close>; there is no
  \<^verbatim>\<open>.env\<close> file anywhere; the mem0 package is not installed.
\<close>

definition sample_runtime :: "exc + json \<Rightarrow> runtime" where
  "sample_runtime parsed =
     \<lparr>json_loads = (\<lambda>s. if s = ''{}'' then Inr (JDict []) else parsed),
      py_int = (\<lambda>s. if s = ''5'' then Some 5 else if s = ''10'' then Some 10 else None),
      py_float = (\<lambda>s. if s = ''0.3'' then Some (FFinite 5404319552844595 (- 54)) else None),
      py_repr = (\<lambda>v. ''?''),
      dotenv_at = (\<lambda>root. NoFile),
      dotenv_cwd = NoFile,
      client_search = (\<lambda>k q u n t. Inl ImportError),
      client_add = (\<lambda>k m u. Inl ImportError)\<rparr>"

text \<open>
  A memory record as the service returns it: an object whose \<^verbatim>\<open>memory\<close>, when present,
  is a string and whose \<^verbatim>\<open>categories\<close>, when present, is a list of strings; and its two
  fields, empty when absent.
\<close>

fun is_str :: "json \<Rightarrow> bool" where
  "is_str (JStr s) = True"
| "is_str other = False"

fun the_str :: "json \<Rightarrow> string" where
  "the_str (JStr s) = s"
| "the_str other = []"

fun is_memory_record :: "json \<Rightarrow> bool" where
  "is_memory_record (JDict kvs) =
     ((case map_of kvs ''memory'' of None \<Rightarrow> True | Some m \<Rightarrow> is_str m) \<and>
      (case map_of kvs ''categories'' of
         None \<Rightarrow> True
       | Some (JList cs) \<Rightarrow> list_all is_str cs
       | Some other \<Rightarrow> False))"
| "is_memory_record other = False"

fun memory_of :: "json \<Rightarrow> string" where
  "memory_of (JDict kvs) = (case map_of kvs ''memory'' of None \<Rightarrow> [] | Some m \<Rightarrow> the_str m)"
| "memory_of other = []"

fun categories_of :: "json \<Rightarrow> string list" where
  "categories_of (JDict kvs) =
     (case map_of kvs ''categories'' of Some (JList cs) \<Rightarrow> map the_str cs | other \<Rightarrow> [])"
| "categories_of other = []"

text \<open>
  The formatter in the specification's words. The categories are written between
  brackets, separated by a comma and a space. A record is rendered as a bullet line:
  a dash, the bracketed categories when there are any, the memory. The records with an
  empty memory are dropped; when none is left the result is the empty string, otherwise
  it is the header line followed by the bullet lines, each on a line of its own.
\<close>

fun commas :: "string list \<Rightarrow> string" where
  "commas [] = []"
| "commas (c # cs) = c @ concat (map (\<lambda>d. '', '' @ d) cs)"

definition bullet :: "json \<Rightarrow> string" where
  "bullet r =
     (if categories_of r = [] then ''- '' @ memory_of r
      else ''- ['' @ commas (categories_of r) @ ''] '' @ memory_of r)"

definition format_spec :: "json list \<Rightarrow> string" where
  "format_spec rs =
     (let kept = filter (\<lambda>r. memory_of r \<noteq> []) rs
      in if kept = [] then []
         else ''## Relevant memories from previous conversations:'' @
              concat (map (\<lambda>r. CHR 0x0A # bullet r) kept))"

text \<open>
  The \<^verbatim>\<open>.env\<close> search in the specification's words. The definitions a file holds, in
  order; the declared workspace roots; the lines of the file of the first root that has
  one; the lines of the file of the current directory. \<open>first_wins\<close> merges definitions
  into an environment: a variable that is set keeps its value, otherwise the earliest
  definition counts.
\<close>

definition file_defs :: "string list \<Rightarrow> (string \<times> string) list" where
  "file_defs ls =
     map (\<lambda>line. (split_key line, split_value line)) (filter is_definition (map py_strip ls))"

definition candidate_roots :: "runtime \<Rightarrow> environ \<Rightarrow> json list" where
  "candidate_roots rt env =
     (case json_loads rt (environ_get env ''CURSOR_HOOK_INPUT'' ''{}'') of
        Inl e \<Rightarrow> []
      | Inr input_data \<Rightarrow>
         (case py_get input_data ''workspace_roots'' (JList []) of
            Inl e \<Rightarrow> []
          | Inr workspace_roots \<Rightarrow>
             (case py_iter workspace_roots of Inl e \<Rightarrow> [] | Inr roots \<Rightarrow> roots)))"

fun first_match :: "runtime \<Rightarrow> json list \<Rightarrow> string list" where
  "first_match rt [] = []"
| "first_match rt (JStr root # roots) =
     (case dotenv_at rt root of NoFile \<Rightarrow> first_match rt roots | File ls fail \<Rightarrow> ls)"
| "first_match rt (_ # roots) = []"

definition cwd_lines :: "runtime \<Rightarrow> string list" where
  "cwd_lines rt = (case dotenv_cwd rt of NoFile \<Rightarrow> [] | File ls fail \<Rightarrow> ls)"

definition first_wins :: "environ \<Rightarrow> (string \<times> string) list \<Rightarrow> environ" where
  "first_wins env defs = (\<lambda>k. case env k of Some v \<Rightarrow> Some v | None \<Rightarrow> map_of defs k)"

text \<open>
  The definitions of a file that are read, given the environment and the definitions
  read earlier: reading stops at the first definition of a variable that is neither set
  nor defined earlier and that \<^verbatim>\<open>putenv\<close> rejects; \<open>read_error\<close> is what \<^verbatim>\<open>putenv\<close> raises
  there. The definitions read from the workspace file, then from the file of the
  current directory; and what the loading raises: the error of a rejected definition of
  the latter file, or whatever ends the reading of that file early.
\<close>

fun read_defs ::
  "environ \<Rightarrow> (string \<times> string) list \<Rightarrow> (string \<times> string) list \<Rightarrow> (string \<times> string) list"
where
  "read_defs env earlier [] = []"
| "read_defs env earlier (kv # rest) =
     (if first_wins env earlier (fst kv) = None \<and> putenv_error (fst kv) (snd kv) \<noteq> None then []
      else kv # read_defs env (earlier @ [kv]) rest)"

definition read_error ::
  "environ \<Rightarrow> (string \<times> string) list \<Rightarrow> (string \<times> string) list \<Rightarrow> exc option"
where
  "read_error env earlier defs =
     (case drop (length (read_defs env earlier defs)) defs of
        [] \<Rightarrow> None
      | kv # rest \<Rightarrow> putenv_error (fst kv) (snd kv))"

definition workspace_defs :: "runtime \<Rightarrow> environ \<Rightarrow> (string \<times> string) list" where
  "workspace_defs rt env = read_defs env [] (file_defs (first_match rt (candidate_roots rt env)))"

definition cwd_defs :: "runtime \<Rightarrow> environ \<Rightarrow> (string \<times> string) list" where
  "cwd_defs rt env = read_defs env (workspace_defs rt env) (file_defs (cwd_lines rt))"

definition defs_read :: "runtime \<Rightarrow> environ \<Rightarrow> (string \<times> string) list" where
  "defs_read rt env = workspace_defs rt env @ cwd_defs rt env"

definition load_error :: "runtime \<Rightarrow> environ \<Rightarrow> exc option" where
  "load_error rt env =
     (case read_error env (workspace_defs rt env) (file_defs (cwd_lines rt)) of
        Some e \<Rightarrow> Some e
      | None \<Rightarrow> (case dotenv_cwd rt of NoFile \<Rightarrow> None | File ls fail \<Rightarrow> fail))"

text \<open>
  Sample files: the root \<^verbatim>\<open>/a\<close> has no \<^verbatim>\<open>.env\<close>, \<^verbatim>\<open>/b\<close> and \<^verbatim>\<open>/c\<close> have one, and so
  has the current directory; \<^verbatim>\<open>PRE\<close> is set in the process environment.
\<close>

definition sample_dotenv_runtime :: runtime where
  "sample_dotenv_runtime =
     (sample_runtime (Inr (JDict [(''workspace_roots'', JList [JStr ''/a'', JStr ''/b'', JStr ''/c''])])))
       \<lparr>dotenv_at :=
          (\<lambda>root. if root = ''/b'' then File [''KEY=ws'' @ [CHR 0x0A], ''ONLY_WS = 1'' @ [CHR 0x0A]] None
                   else if root = ''/c'' then File [''THIRD=3''] None
                   else NoFile),
        dotenv_cwd := File [''# KEY=comment'', ''KEY=cwd'', ''PRE=file'', '' CWD=a=b ''] None\<rparr>"

definition sample_environ :: environ where
  "sample_environ =
     [''PRE'' \<mapsto> ''env'', ''CURSOR_HOOK_INPUT'' \<mapsto> ''{\"workspace_roots\": [\"/a\", \"/b\", \"/c\"]}'']"

text \<open>
  Sample files with lines that \<^verbatim>\<open>putenv\<close> rejects (an empty name): the second line of
  the workspace file and the third line of the file of the current directory.
\<close>

definition sample_rejecting_runtime :: runtime where
  "sample_rejecting_runtime =
     (sample_runtime (Inr (JDict [(''workspace_roots'', JList [JStr ''/w''])])))
       \<lparr>dotenv_at := (\<lambda>root. if root = ''/w'' then File [''A=1'', ''=bad'', ''B=2''] None else NoFile),
        dotenv_cwd := File [''B=cwd'', ''C=3'', ''=oops'', ''D=4''] None\<rparr>"

definition sample_rejecting_environ :: environ where
  "sample_rejecting_environ = [''CURSOR_HOOK_INPUT'' \<mapsto> ''{\"workspace_roots\": [\"/w\"]}'']"

text \<open>Whether a call of the memory service is an add.\<close>

fun is_add :: "call \<Rightarrow> bool" where
  "is_add (Add k m u) = True"
| "is_add (Search k q u n t) = False"

text \<open>
  A Hook Result is the default document or a document with a non-empty context. A run
  ends well when it either prints exactly one Hook Result and exits with status 0, or
  is ended by an exception, printing nothing and exiting with status 1.
\<close>

definition hook_result :: "json \<Rightarrow> bool" where
  "hook_result doc = (doc = default_result \<or> (\<exists>m. m \<noteq> [] \<and> doc = context_result m))"

definition well_ended :: "outcome \<Rightarrow> bool" where
  "well_ended r =
     (stdout r = [] \<and> exit_status r = 1 \<and> uncaught r \<noteq> None \<or>
      (\<exists>doc. stdout r = [doc] \<and> hook_result doc) \<and> exit_status r = 0 \<and> uncaught r = None)"

section \<open>Truncation\<close>

lemma truncate_content_short: "length c \<le> 2000 \<Longrightarrow> truncate_content c = c"
  by (simp add: truncate_content_def)

lemma truncate_content_long:
  "2000 < length c \<Longrightarrow> truncate_content c = take 2000 c @ ''...''"
  by (simp add: truncate_content_def)

lemma truncate_content_idem: "truncate_content (truncate_content c) = truncate_content c"
  by (simp add: truncate_content_def)

text \<open>
  Claim C4. The truncation step of \<^verbatim>\<open>extract_messages\<close> leaves a content of at most 2000
  characters unchanged, turns a longer one into its first 2000 characters followed by
  the marker \<^verbatim>\<open>...\<close>, and is idempotent: truncating a truncated content changes nothing.
\<close>

theorem truncation_idempotent:
  "(length c \<le> 2000 \<longrightarrow> truncate_content c = c) \<and>
   (2000 < length c \<longrightarrow>
      truncate_content c = take 2000 c @ ''...'' \<and> length (truncate_content c) = 2003) \<and>
   truncate_content (truncate_content c) = truncate_content c"
  using truncate_content_short [of c] truncate_content_long [of c] truncate_content_idem [of c]
  by auto

theorem truncation_idempotent_witness:
  "truncate_content ''hello'' = ''hello'' \<and>
   truncate_content (replicate 2001 CHR ''a'') = replicate 2000 CHR ''a'' @ ''...'' \<and>
   truncate_content (replicate 2000 CHR ''a'' @ ''...'') = replicate 2000 CHR ''a'' @ ''...''"
proof -
  have short: "truncate_content ''hello'' = ''hello''"
    using truncation_idempotent [of "''hello''"] by simp
  have long: "truncate_content (replicate 2001 CHR ''a'') = replicate 2000 CHR ''a'' @ ''...''"
    using truncation_idempotent [of "replicate 2001 CHR ''a''"] by simp
  have "truncate_content (truncate_content (replicate 2001 CHR ''a'')) =
        truncate_content (replicate 2001 CHR ''a'')"
    using truncation_idempotent [of "replicate 2001 CHR ''a''"] by blast
  then have again: "truncate_content (replicate 2000 CHR ''a'' @ ''...'') =
                    replicate 2000 CHR ''a'' @ ''...''"
    by (simp only: long)
  from short long again show ?thesis by blast
qed

section \<open>Normalising a transcript\<close>

lemma tail_slice_pos: "0 < n \<Longrightarrow> tail_slice n xs = most_recent (nat n) xs"
  by (simp add: tail_slice_def most_recent_def)

lemma extract_messages_list:
  "get_transcript d = Inr (JList ts) \<Longrightarrow>
   extract_messages d n = collect_messages (tail_slice n ts)"
  by (cases ts) (auto simp: extract_messages_def tail_slice_def)

lemma get_transcript_sample:
  "get_transcript (JDict [(''transcript'', JList (t # ts))]) = Inr (JList (t # ts))"
  by (simp add: get_transcript_def dict_get_def)

lemma join_strs_concat: "join_strs sep (s # ss) = s @ concat (map (\<lambda>t. sep @ t) ss)"
  by (induction ss arbitrary: s) auto

lemma join_strs_spaced: "join_strs '' '' ss = spaced ss"
  by (cases ss) (simp_all add: join_strs_concat)

lemma str_items_text_parts:
  "str_items (text_parts parts) =
     (if list_ex bad_part parts then None else Some (List.map_filter text_of_part parts))"
proof (induction parts)
  case Nil
  then show ?case by (simp add: List.map_filter_simps)
next
  case (Cons p parts)
  show ?case
  proof (cases p)
    case (JDict kvs)
    show ?thesis
    proof (cases "map_of kvs ''type'' = Some (JStr ''text'')")
      case True
      then have tagged: "dict_get kvs ''type'' JNull = JStr ''text''"
        by (simp add: dict_get_def)
      show ?thesis
      proof (cases "map_of kvs ''text''")
        case None
        with True tagged JDict Cons show ?thesis
          by (simp add: dict_get_def List.map_filter_simps)
      next
        case (Some t)
        with True tagged JDict Cons show ?thesis
          by (cases t) (simp_all add: dict_get_def List.map_filter_simps)
      qed
    next
      case False
      then have "dict_get kvs ''type'' JNull \<noteq> JStr ''text''"
        by (auto simp: dict_get_def split: option.splits)
      with False JDict Cons show ?thesis
        by (simp add: List.map_filter_simps)
    qed
  qed (insert Cons, simp_all add: List.map_filter_simps)
qed

lemma extract_entry_valid:
  "extract_entry e = (case entry_error e of Some x \<Rightarrow> Inl x | None \<Rightarrow> Inr (valid_message e))"
proof (cases e)
  case (JDict kvs)
  have role: "dict_get kvs ''role'' (JStr []) = entry_role kvs"
    by (simp add: dict_get_def entry_role_def)
  show ?thesis
  proof (cases "map_of kvs ''content''")
    case None
    with JDict role show ?thesis
      by (simp add: extract_entry_def dict_get_def derived_content_def)
  next
    case (Some c)
    show ?thesis
    proof (cases c)
      case (JList parts)
      with Some JDict role show ?thesis
        by (simp add: extract_entry_def dict_get_def derived_content_def py_join_def
            str_items_text_parts join_strs_spaced mk_message_def truncate_content_def)
    next
      case (JStr s)
      with Some JDict role show ?thesis
        by (simp add: extract_entry_def dict_get_def derived_content_def mk_message_def
            truncate_content_def)
    qed (insert Some JDict role,
          simp_all add: extract_entry_def dict_get_def derived_content_def)
  qed
qed (simp_all add: extract_entry_def)

lemma collect_messages_valid:
  "collect_messages xs =
     (case first_error xs of Some x \<Rightarrow> Inl x | None \<Rightarrow> Inr (concat (map valid_message xs)))"
  by (induction xs) (auto simp: extract_entry_valid split: option.splits)

lemma length_valid_message: "length (valid_message e) \<le> Suc 0"
  by (cases e) (auto split: json.splits)

lemma length_concat_valid_message: "length (concat (map valid_message xs)) \<le> length xs"
proof (induction xs)
  case Nil
  then show ?case by simp
next
  case (Cons x xs)
  with length_valid_message [of x] show ?case by simp
qed

text \<open>
  Claim C3, as the code has it. \<^verbatim>\<open>extract_messages\<close> slices first and filters second. For
  every transcript that is a list and every positive limit \<open>n\<close>, it looks at the most
  recent \<open>n\<close> entries only: when each of them can be read, it returns the messages of the
  valid entries among them in their order, dropping the entries with a missing role,
  with no usable content or with a derived content that is not a string, so at most \<open>n\<close>
  messages; when one of them cannot be read, it raises the error of the first such
  entry.
\<close>

theorem extract_messages_tail_then_filter:
  assumes "get_transcript d = Inr (JList ts)"
    and "0 < n"
  shows "extract_messages d n =
           (case first_error (most_recent (nat n) ts) of
              Some x \<Rightarrow> Inl x
            | None \<Rightarrow> Inr (recent_then_valid ts (nat n))) \<and>
         length (recent_then_valid ts (nat n)) \<le> nat n"
proof -
  have "length (recent_then_valid ts (nat n)) \<le> length (most_recent (nat n) ts)"
    unfolding recent_then_valid_def by (rule length_concat_valid_message)
  also have "\<dots> \<le> nat n"
    by (simp add: most_recent_def)
  finally have len: "length (recent_then_valid ts (nat n)) \<le> nat n" .
  from assms have "extract_messages d n = collect_messages (most_recent (nat n) ts)"
    by (simp add: extract_messages_list tail_slice_pos)
  then have "extract_messages d n =
               (case first_error (most_recent (nat n) ts) of
                  Some x \<Rightarrow> Inl x
                | None \<Rightarrow> Inr (recent_then_valid ts (nat n)))"
    unfolding recent_then_valid_def by (simp only: collect_messages_valid)
  with len show ?thesis by blast
qed

theorem extract_messages_tail_then_filter_witness:
  "extract_messages
     (JDict [(''transcript'',
        JList [JDict [(''role'', JStr ''user''), (''content'', JStr ''first'')],
               JDict [(''content'', JStr ''no role'')],
               JDict [(''role'', JStr ''''), (''content'', JStr ''empty role'')],
               JDict [(''role'', JStr ''assistant''),
                      (''content'',
                       JList [JStr ''b'',
                              JDict [(''type'', JStr ''text''), (''text'', JStr ''c'')],
                              JDict [(''type'', JStr ''image''), (''url'', JStr ''u'')],
                              JStr ''d''])],
               JDict [(''role'', JStr ''user''), (''content'', JInt 5)],
               JDict [(''role'', JStr ''user'')],
               JDict [(''role'', JStr ''user''), (''content'', JStr ''last'')]])]) 6 =
   Inr [JDict [(''role'', JStr ''assistant''), (''content'', JStr ''b c d'')],
        JDict [(''role'', JStr ''user''), (''content'', JStr ''last'')]] \<and>
   extract_messages
     (JDict [(''transcript'',
        JList [JDict [(''role'', JStr ''user''), (''content'', JStr ''first'')],
               JInt 1])]) 2 =
   Inl AttributeError \<and>
   extract_messages
     (JDict [(''transcript'',
        JList [JDict [(''role'', JStr ''user''),
                      (''content'', JList [JDict [(''type'', JStr ''text''), (''text'', JInt 5)]])],
               JDict [(''role'', JStr ''user''), (''content'', JStr ''last'')]])]) 2 =
   Inl TypeError"
proof -
  let ?a = "[JDict [(''role'', JStr ''user''), (''content'', JStr ''first'')],
             JDict [(''content'', JStr ''no role'')],
             JDict [(''role'', JStr ''''), (''content'', JStr ''empty role'')],
             JDict [(''role'', JStr ''assistant''),
                    (''content'',
                     JList [JStr ''b'',
                            JDict [(''type'', JStr ''text''), (''text'', JStr ''c'')],
                            JDict [(''type'', JStr ''image''), (''url'', JStr ''u'')],
                            JStr ''d''])],
             JDict [(''role'', JStr ''user''), (''content'', JInt 5)],
             JDict [(''role'', JStr ''user'')],
             JDict [(''role'', JStr ''user''), (''content'', JStr ''last'')]]"
  let ?b = "[JDict [(''role'', JStr ''user''), (''content'', JStr ''first'')], JInt 1]"
  let ?c = "[JDict [(''role'', JStr ''user''),
                    (''content'', JList [JDict [(''type'', JStr ''text''), (''text'', JInt 5)]])],
             JDict [(''role'', JStr ''user''), (''content'', JStr ''last'')]]"
  have a: "get_transcript (JDict [(''transcript'', JList ?a)]) = Inr (JList ?a)"
    and b: "get_transcript (JDict [(''transcript'', JList ?b)]) = Inr (JList ?b)"
    and c: "get_transcript (JDict [(''transcript'', JList ?c)]) = Inr (JList ?c)"
    by (rule get_transcript_sample)+
  have "first_error (most_recent (nat 6) ?a) = None"
    and "recent_then_valid ?a (nat 6) =
           [JDict [(''role'', JStr ''assistant''), (''content'', JStr ''b c d'')],
            JDict [(''role'', JStr ''user''), (''content'', JStr ''last'')]]"
    by (simp_all add: recent_then_valid_def most_recent_def derived_content_def entry_role_def
        List.map_filter_simps)
  with extract_messages_tail_then_filter [OF a, of 6]
  have first: "extract_messages (JDict [(''transcript'', JList ?a)]) 6 =
                 Inr [JDict [(''role'', JStr ''assistant''), (''content'', JStr ''b c d'')],
                      JDict [(''role'', JStr ''user''), (''content'', JStr ''last'')]]"
    by simp
  have "first_error (most_recent (nat 2) ?b) = Some AttributeError"
    by (simp add: most_recent_def)
  with extract_messages_tail_then_filter [OF b, of 2]
  have second: "extract_messages (JDict [(''transcript'', JList ?b)]) 2 = Inl AttributeError"
    by simp
  have "first_error (most_recent (nat 2) ?c) = Some TypeError"
    by (simp add: most_recent_def)
  with extract_messages_tail_then_filter [OF c, of 2]
  have third: "extract_messages (JDict [(''transcript'', JList ?c)]) 2 = Inl TypeError"
    by simp
  from first second third show ?thesis by blast
qed

text \<open>
  Claim C3, as the specification states it, fails: on the transcript of a valid entry
  followed by an entry with an empty content and the limit 1, dropping the invalid
  entries first and keeping the most recent one gives the valid entry, while
  \<^verbatim>\<open>extract_messages\<close> keeps the last entry only and then drops it.
\<close>

theorem extract_messages_filter_then_tail_counterexample:
  "extract_messages
     (JDict [(''transcript'',
        JList [JDict [(''role'', JStr ''user''), (''content'', JStr ''hello'')],
               JDict [(''role'', JStr ''user''), (''content'', JStr '''')]])]) 1 =
     Inr [] \<and>
   valid_then_recent
     [JDict [(''role'', JStr ''user''), (''content'', JStr ''hello'')],
      JDict [(''role'', JStr ''user''), (''content'', JStr '''')]] 1 =
     [JDict [(''role'', JStr ''user''), (''content'', JStr ''hello'')]]"
proof -
  let ?ts = "[JDict [(''role'', JStr ''user''), (''content'', JStr ''hello'')],
              JDict [(''role'', JStr ''user''), (''content'', JStr '''')]]"
  have "extract_messages (JDict [(''transcript'', JList ?ts)]) 1 =
        collect_messages (tail_slice 1 ?ts)"
    by (rule extract_messages_list) (rule get_transcript_sample)
  also have "\<dots> = collect_messages [JDict [(''role'', JStr ''user''), (''content'', JStr '''')]]"
    by (simp add: tail_slice_def)
  also have "\<dots> = Inr []"
    by (simp add: extract_entry_def dict_get_def)
  finally have code: "extract_messages (JDict [(''transcript'', JList ?ts)]) 1 = Inr []" .
  have "valid_then_recent ?ts 1 = [JDict [(''role'', JStr ''user''), (''content'', JStr ''hello'')]]"
    by (simp add: valid_then_recent_def most_recent_def derived_content_def entry_role_def)
  with code show ?thesis by simp
qed

lemma extract_entry_text: "text_entry e \<Longrightarrow> extract_entry e = Inr [normalized e]"
  by (auto simp: text_entry_def normalized_def extract_entry_def split: json.splits)

lemma collect_messages_text:
  "list_all text_entry xs \<Longrightarrow> collect_messages xs = Inr (map normalized xs)"
  by (induction xs) (auto simp: extract_entry_text)

lemma text_entry_user_says: "c \<noteq> [] \<Longrightarrow> text_entry (user_says c)"
  by (simp add: text_entry_def user_says_def dict_get_def)

lemma normalized_user_says: "normalized (user_says c) = user_says (truncate_content c)"
  by (simp add: normalized_def user_says_def dict_get_def mk_message_def)

text \<open>
  Claim C5. A transcript of \<open>N\<close> text messages (each entry has a role that counts as true
  and a non-empty string as content) and a positive limit: when \<open>N\<close> is at most the
  limit, \<^verbatim>\<open>extract_messages\<close> returns the \<open>N\<close> normalized messages in order; when \<open>N\<close> is
  larger, it returns exactly limit messages, those of the most recent limit entries in
  order.
\<close>

theorem extract_messages_text_round_trip:
  assumes "get_transcript d = Inr (JList ts)"
    and "list_all text_entry ts"
    and "0 < limit"
  shows "(int (length ts) \<le> limit \<longrightarrow>
            extract_messages d limit = Inr (map normalized ts) \<and>
            length (map normalized ts) = length ts) \<and>
         (limit < int (length ts) \<longrightarrow>
            extract_messages d limit = Inr (map normalized (most_recent (nat limit) ts)) \<and>
            length (map normalized (most_recent (nat limit) ts)) = nat limit)"
proof -
  have "list_all text_entry (most_recent (nat limit) ts)"
    using assms(2) unfolding most_recent_def list_all_iff by (meson in_set_dropD)
  then have eq: "extract_messages d limit = Inr (map normalized (most_recent (nat limit) ts))"
    using assms by (simp add: extract_messages_list tail_slice_pos collect_messages_text)
  have "int (length ts) \<le> limit \<Longrightarrow> most_recent (nat limit) ts = ts"
    by (simp add: most_recent_def)
  moreover have "limit < int (length ts) \<Longrightarrow> length (most_recent (nat limit) ts) = nat limit"
    using assms(3) by (simp add: most_recent_def)
  ultimately show ?thesis using eq by simp
qed

theorem extract_messages_text_round_trip_witness:
  "extract_messages
     (JDict [(''transcript'', JList [user_says ''a'', user_says ''b'', user_says ''c''])]) 5 =
     Inr [user_says ''a'', user_says ''b'', user_says ''c''] \<and>
   extract_messages
     (JDict [(''transcript'', JList [user_says ''a'', user_says ''b'', user_says ''c''])]) 2 =
     Inr [user_says ''b'', user_says ''c'']"
proof -
  let ?ts = "[user_says ''a'', user_says ''b'', user_says ''c'']"
  have t: "get_transcript (JDict [(''transcript'', JList ?ts)]) = Inr (JList ?ts)"
    by (rule get_transcript_sample)
  have texts: "list_all text_entry ?ts"
    by (simp add: text_entry_user_says)
  have five: "extract_messages (JDict [(''transcript'', JList ?ts)]) 5 = Inr ?ts"
    using extract_messages_text_round_trip [OF t texts, of 5]
    by (simp add: normalized_user_says truncate_content_def)
  have two: "extract_messages (JDict [(''transcript'', JList ?ts)]) 2 =
             Inr [user_says ''b'', user_says ''c'']"
    using extract_messages_text_round_trip [OF t texts, of 2]
    by (simp add: normalized_user_says truncate_content_def most_recent_def)
  from five two show ?thesis by simp
qed

section \<open>Formatting memories\<close>

lemma str_items_strs: "list_all is_str cs \<Longrightarrow> str_items cs = Some (map the_str cs)"
proof (induction cs)
  case Nil
  then show ?case by simp
next
  case (Cons c cs)
  then show ?case by (cases c) auto
qed

lemma py_join_commas:
  "list_all is_str cs \<Longrightarrow> py_join '', '' cs = Inr (commas (map the_str cs))"
  by (cases cs) (simp_all add: py_join_def str_items_strs join_strs_concat comp_def)

lemma format_record_memory:
  assumes "is_memory_record r"
  shows "format_record repr r = Inr (if memory_of r = [] then [] else [bullet r])"
proof -
  from assms obtain kvs where r: "r = JDict kvs"
    by (cases r) auto
  from assms r obtain m where m: "dict_get kvs ''memory'' (JStr '''') = JStr m"
    and mem: "memory_of r = m"
    by (cases "map_of kvs ''memory''"; cases "the (map_of kvs ''memory'')")
       (auto simp: dict_get_def)
  from assms r obtain cs where cs: "dict_get kvs ''categories'' (JList []) = JList cs"
    and strs: "list_all is_str cs"
    and cat: "categories_of r = map the_str cs"
    by (cases "map_of kvs ''categories''"; cases "the (map_of kvs ''categories'')")
       (auto simp: dict_get_def)
  show ?thesis
  proof (cases "m = []")
    case True
    with r m mem show ?thesis by (simp add: format_record_def)
  next
    case False
    show ?thesis
    proof (cases "cs = []")
      case True
      with False r m cs mem cat show ?thesis by (simp add: format_record_def bullet_def)
    next
      case cs_ne: False
      with False r m cs mem cat py_join_commas [OF strs] show ?thesis
        by (simp add: format_record_def bullet_def)
    qed
  qed
qed

lemma format_lines_memory:
  "list_all is_memory_record rs \<Longrightarrow>
   format_lines repr rs = Inr (map bullet (filter (\<lambda>r. memory_of r \<noteq> []) rs))"
  by (induction rs) (simp_all add: format_record_memory)

lemma header_lines:
  "ls \<noteq> [] \<Longrightarrow>
   memories_header @ join_strs [CHR 0x0A] ls =
     ''## Relevant memories from previous conversations:'' @ concat (map (\<lambda>l. CHR 0x0A # l) ls)"
  by (cases ls) (simp_all add: memories_header_def join_strs_concat)

text \<open>
  Claim C7. On a list of memory records \<^verbatim>\<open>format_memories\<close> is the formatter of the
  specification: records with an empty memory are dropped, each other record is a
  bullet line that starts with its bracketed, comma-separated categories when it has
  any, the header comes first, and when no record is left the result is the empty
  string. The witness spells out the result on the specification's example, on a list
  with three surviving records, one of them with three categories, and on a list of
  records with empty memories.
\<close>

theorem format_memories_records:
  assumes "list_all is_memory_record rs"
  shows "format_memories repr (JList rs) = Inr (format_spec rs) \<and>
         (list_all (\<lambda>r. memory_of r = []) rs \<longrightarrow> format_memories repr (JList rs) = Inr [])"
proof -
  let ?kept = "filter (\<lambda>r. memory_of r \<noteq> []) rs"
  have "format_memories repr (JList rs) =
          (if ?kept = [] then Inr [] else Inr (memories_header @ join_strs [CHR 0x0A] (map bullet ?kept)))"
    using assms by (simp add: format_memories_def format_lines_memory)
  also have "\<dots> = Inr (format_spec rs)"
    using header_lines [of "map bullet ?kept"]
    by (simp add: format_spec_def Let_def comp_def)
  finally have eq: "format_memories repr (JList rs) = Inr (format_spec rs)" .
  have "list_all (\<lambda>r. memory_of r = []) rs \<Longrightarrow> format_spec rs = []"
    by (simp add: format_spec_def list_all_iff filter_empty_conv)
  with eq show ?thesis by simp
qed

theorem format_memories_records_witness:
  "format_memories (\<lambda>v. [])
     (JList [JDict [(''memory'', JStr ''likes dark mode''),
                    (''categories'', JList [JStr ''preferences''])],
             JDict [(''memory'', JStr ''''), (''categories'', JList [])]]) =
     Inr (''## Relevant memories from previous conversations:'' @ [CHR 0x0A] @
          ''- [preferences] likes dark mode'') \<and>
   format_memories (\<lambda>v. [])
     (JList [JDict [(''id'', JInt 7), (''memory'', JStr ''uses vim''), (''score'', JInt 1)],
             JDict [(''memory'', JStr ''''), (''categories'', JList [JStr ''work''])],
             JDict [(''memory'', JStr ''likes dark mode''),
                    (''categories'', JList [JStr ''preferences'', JStr ''ui'', JStr ''editor''])],
             JDict [(''memory'', JStr ''writes Python''), (''categories'', JList [])]]) =
     Inr (''## Relevant memories from previous conversations:'' @ [CHR 0x0A] @
          ''- uses vim'' @ [CHR 0x0A] @
          ''- [preferences, ui, editor] likes dark mode'' @ [CHR 0x0A] @
          ''- writes Python'') \<and>
   format_memories (\<lambda>v. [])
     (JList [JDict [(''memory'', JStr ''''), (''categories'', JList [])],
             JDict [(''categories'', JList [JStr ''work''])]]) =
     Inr []"
proof -
  let ?a = "[JDict [(''memory'', JStr ''likes dark mode''),
                    (''categories'', JList [JStr ''preferences''])],
             JDict [(''memory'', JStr ''''), (''categories'', JList [])]]"
  let ?b = "[JDict [(''id'', JInt 7), (''memory'', JStr ''uses vim''), (''score'', JInt 1)],
             JDict [(''memory'', JStr ''''), (''categories'', JList [JStr ''work''])],
             JDict [(''memory'', JStr ''likes dark mode''),
                    (''categories'', JList [JStr ''preferences'', JStr ''ui'', JStr ''editor''])],
             JDict [(''memory'', JStr ''writes Python''), (''categories'', JList [])]]"
  let ?c = "[JDict [(''memory'', JStr ''''), (''categories'', JList [])],
             JDict [(''categories'', JList [JStr ''work''])]]"
  have a: "list_all is_memory_record ?a" and b: "list_all is_memory_record ?b"
    and c: "list_all is_memory_record ?c"
    by simp_all
  have "format_spec ?a =
          ''## Relevant memories from previous conversations:'' @ [CHR 0x0A] @
          ''- [preferences] likes dark mode''"
    by (simp add: format_spec_def bullet_def)
  with format_memories_records [OF a, of "\<lambda>v. []"]
  have first: "format_memories (\<lambda>v. []) (JList ?a) =
     Inr (''## Relevant memories from previous conversations:'' @ [CHR 0x0A] @
          ''- [preferences] likes dark mode'')"
    by simp
  have "format_spec ?b =
          ''## Relevant memories from previous conversations:'' @ [CHR 0x0A] @
          ''- uses vim'' @ [CHR 0x0A] @
          ''- [preferences, ui, editor] likes dark mode'' @ [CHR 0x0A] @
          ''- writes Python''"
    by (simp add: format_spec_def bullet_def)
  with format_memories_records [OF b, of "\<lambda>v. []"]
  have second: "format_memories (\<lambda>v. []) (JList ?b) =
     Inr (''## Relevant memories from previous conversations:'' @ [CHR 0x0A] @
          ''- uses vim'' @ [CHR 0x0A] @
          ''- [preferences, ui, editor] likes dark mode'' @ [CHR 0x0A] @
          ''- writes Python'')"
    by simp
  have "list_all (\<lambda>r. memory_of r = []) ?c"
    by simp
  with format_memories_records [OF c, of "\<lambda>v. []"]
  have third: "format_memories (\<lambda>v. []) (JList ?c) = Inr []"
    by blast
  from first second third show ?thesis by blast
qed

section \<open>Loading the \<^verbatim>\<open>.env\<close> files\<close>

lemma first_wins_Nil [simp]: "first_wins env [] = env"
  by (auto simp: first_wins_def split: option.splits)

lemma first_wins_append: "first_wins (first_wins env d1) d2 = first_wins env (d1 @ d2)"
  by (rule ext) (auto simp: first_wins_def map_add_def split: option.splits)

lemma first_wins_Cons_set: "env k = Some old \<Longrightarrow> first_wins env ((k, v) # defs) = first_wins env defs"
  by (rule ext) (auto simp: first_wins_def split: option.splits)

lemma first_wins_Cons_new: "env k = None \<Longrightarrow> first_wins env ((k, v) # defs) = first_wins (env(k \<mapsto> v)) defs"
  by (rule ext) (auto simp: first_wins_def split: option.splits)

lemma first_wins_snoc_set:
  assumes "first_wins env earlier k = Some old"
  shows "first_wins env (earlier @ [(k, v)]) = first_wins env earlier"
proof -
  have "first_wins env (earlier @ [(k, v)]) = first_wins (first_wins env earlier) [(k, v)]"
    by (simp only: first_wins_append)
  also have "\<dots> = first_wins (first_wins env earlier) []"
    using assms by (rule first_wins_Cons_set)
  finally show ?thesis by simp
qed

lemma first_wins_snoc_new:
  assumes "first_wins env earlier k = None"
  shows "first_wins env (earlier @ [(k, v)]) = (first_wins env earlier)(k \<mapsto> v)"
proof -
  have "first_wins env (earlier @ [(k, v)]) = first_wins (first_wins env earlier) [(k, v)]"
    by (simp only: first_wins_append)
  also have "\<dots> = first_wins ((first_wins env earlier)(k \<mapsto> v)) []"
    using assms by (rule first_wins_Cons_new)
  finally show ?thesis by simp
qed

lemma file_defs_Nil [simp]: "file_defs [] = []"
  by (simp add: file_defs_def)

lemma file_defs_Cons:
  "file_defs (l # ls) =
     (if is_definition (py_strip l) then (split_key (py_strip l), split_value (py_strip l)) # file_defs ls
      else file_defs ls)"
  by (simp add: file_defs_def)

lemma read_error_Nil [simp]: "read_error env earlier [] = None"
  by (simp add: read_error_def)

lemma read_defs_keep:
  assumes "first_wins env earlier k \<noteq> None \<or> putenv_error k v = None"
  shows "read_defs env earlier ((k, v) # rest) = (k, v) # read_defs env (earlier @ [(k, v)]) rest"
    and "read_error env earlier ((k, v) # rest) = read_error env (earlier @ [(k, v)]) rest"
  using assms by (auto simp: read_error_def)

lemma read_defs_stop:
  assumes "first_wins env earlier k = None" and "putenv_error k v = Some e"
  shows "read_defs env earlier ((k, v) # rest) = []"
    and "read_error env earlier ((k, v) # rest) = Some e"
  using assms by (simp_all add: read_error_def)

lemma read_lines_read_defs:
  "read_lines ls (first_wins env earlier) =
     (read_error env earlier (file_defs ls),
      first_wins env (earlier @ read_defs env earlier (file_defs ls)))"
proof (induction ls arbitrary: earlier)
  case Nil
  then show ?case by simp
next
  case (Cons l ls)
  let ?now = "first_wins env earlier"
  show ?case
  proof (cases "is_definition (py_strip l)")
    case False
    then have "env_line ?now l = Inr ?now" and "file_defs (l # ls) = file_defs ls"
      by (simp_all add: env_line_def file_defs_Cons)
    with Cons.IH [of earlier] show ?thesis by simp
  next
    case True
    let ?k = "split_key (py_strip l)" and ?v = "split_value (py_strip l)"
    have defs: "file_defs (l # ls) = (?k, ?v) # file_defs ls"
      using True by (simp add: file_defs_Cons)
    have line: "env_line ?now l = setdefault ?now ?k ?v"
      using True by (simp add: env_line_def Let_def)
    show ?thesis
    proof (cases "?now ?k")
      case (Some old)
      then have "env_line ?now l = Inr ?now"
        using line by (simp add: setdefault_def)
      then have "read_lines (l # ls) ?now = read_lines ls (first_wins env (earlier @ [(?k, ?v)]))"
        using first_wins_snoc_set [OF Some, of ?v] by simp
      also have "\<dots> = (read_error env (earlier @ [(?k, ?v)]) (file_defs ls),
                     first_wins env ((earlier @ [(?k, ?v)]) @
                       read_defs env (earlier @ [(?k, ?v)]) (file_defs ls)))"
        by (rule Cons.IH)
      finally show ?thesis
        using Some read_defs_keep [of env earlier ?k ?v "file_defs ls"]
        by (simp add: defs)
    next
      case None
      show ?thesis
      proof (cases "putenv_error ?k ?v")
        case (Some e)
        then have "env_line ?now l = Inl e"
          using line None by (simp add: setdefault_def)
        then have "read_lines (l # ls) ?now = (Some e, ?now)"
          by simp
        then show ?thesis
          using read_defs_stop [OF None Some, of "file_defs ls"] by (simp add: defs)
      next
        case ok: None
        then have "env_line ?now l = Inr (?now(?k \<mapsto> ?v))"
          using line None by (simp add: setdefault_def)
        then have "read_lines (l # ls) ?now = read_lines ls (first_wins env (earlier @ [(?k, ?v)]))"
          using first_wins_snoc_new [OF None, of ?v] by simp
        also have "\<dots> = (read_error env (earlier @ [(?k, ?v)]) (file_defs ls),
                       first_wins env ((earlier @ [(?k, ?v)]) @
                         read_defs env (earlier @ [(?k, ?v)]) (file_defs ls)))"
          by (rule Cons.IH)
        finally show ?thesis
          using ok read_defs_keep [of env earlier ?k ?v "file_defs ls"]
          by (simp add: defs)
      qed
    qed
  qed
qed

lemma read_dotenv_read_defs:
  "read_dotenv ls fail (first_wins env earlier) =
     (case read_error env earlier (file_defs ls) of Some e \<Rightarrow> Some e | None \<Rightarrow> fail,
      first_wins env (earlier @ read_defs env earlier (file_defs ls)))"
  by (simp add: read_dotenv_def read_lines_read_defs split: option.splits)

lemma try_roots_read_defs:
  "snd (try_roots rt roots env) = first_wins env (read_defs env [] (file_defs (first_match rt roots)))"
proof (induction rt roots env rule: try_roots.induct)
  case (2 rt root roots env)
  show ?case
  proof (cases "dotenv_at rt root")
    case NoFile
    with 2 show ?thesis by simp
  next
    case (File ls fail)
    with read_dotenv_read_defs [of ls fail env "[]"] show ?thesis by simp
  qed
qed simp_all

lemma workspace_env_read_defs: "snd (workspace_env rt env) = first_wins env (workspace_defs rt env)"
  by (auto simp: workspace_env_def workspace_defs_def candidate_roots_def try_roots_read_defs
      split: sum.splits)

lemma load_env_file_read_defs:
  "load_env_file rt env = (load_error rt env, first_wins env (defs_read rt env))"
proof (cases "dotenv_cwd rt")
  case NoFile
  then show ?thesis
    by (simp add: load_env_file_def workspace_env_read_defs load_error_def defs_read_def
        cwd_defs_def cwd_lines_def)
next
  case (File ls fail)
  with read_dotenv_read_defs [of ls fail env "workspace_defs rt env"] show ?thesis
    by (simp add: load_env_file_def workspace_env_read_defs load_error_def defs_read_def
        cwd_defs_def cwd_lines_def split: option.splits)
qed

text \<open>A variable that is set before loading keeps its value, whatever is raised.\<close>

lemma setdefault_keeps: "env k = Some v \<Longrightarrow> setdefault env k' v' = Inr env' \<Longrightarrow> env' k = Some v"
  by (auto simp: setdefault_def split: option.splits)

lemma env_line_keeps: "env k = Some v \<Longrightarrow> env_line env l = Inr env' \<Longrightarrow> env' k = Some v"
  by (auto simp: env_line_def Let_def split: if_splits dest: setdefault_keeps)

lemma read_lines_keeps: "env k = Some v \<Longrightarrow> snd (read_lines ls env) k = Some v"
proof (induction ls arbitrary: env)
  case Nil
  then show ?case by simp
next
  case (Cons l ls)
  then show ?case by (auto split: sum.splits dest: env_line_keeps)
qed

lemma read_dotenv_keeps: "env k = Some v \<Longrightarrow> snd (read_dotenv ls fail env) k = Some v"
  using read_lines_keeps [of env k v ls]
  by (auto simp: read_dotenv_def split: prod.splits option.splits)

lemma try_roots_keeps: "env k = Some v \<Longrightarrow> snd (try_roots rt roots env) k = Some v"
  by (induction rt roots env rule: try_roots.induct)
     (auto simp: read_dotenv_keeps split: dotenv.splits)

lemma workspace_env_keeps: "env k = Some v \<Longrightarrow> snd (workspace_env rt env) k = Some v"
  by (auto simp: workspace_env_def try_roots_keeps split: sum.splits)

lemma load_env_file_keeps: "env k = Some v \<Longrightarrow> snd (load_env_file rt env) k = Some v"
  by (auto simp: load_env_file_def Let_def workspace_env_keeps read_dotenv_keeps split: dotenv.splits)

text \<open>
  Claim C9. \<^verbatim>\<open>load_env_file\<close> never changes a variable that is set before loading, and
  on every input the environment after loading is the first-definition-wins merge,
  into the environment before, of the definitions read: those of the \<^verbatim>\<open>.env\<close> file of
  the first declared workspace root that has one, followed by those of the \<^verbatim>\<open>.env\<close>
  file of the current directory, each file read up to the first definition that
  \<^verbatim>\<open>putenv\<close> rejects. The function raises what ends the reading of the latter file.
\<close>

theorem load_env_file_first_definition_wins:
  "(\<forall>k v. env k = Some v \<longrightarrow> snd (load_env_file rt env) k = Some v) \<and>
   snd (load_env_file rt env) = first_wins env (defs_read rt env) \<and>
   fst (load_env_file rt env) = load_error rt env"
  using load_env_file_keeps [of env _ _ rt] load_env_file_read_defs [of rt env]
  by simp

lemma sample_defs_read:
  "defs_read sample_dotenv_runtime sample_environ =
     [(''KEY'', ''ws''), (''ONLY_WS'', ''1''), (''KEY'', ''cwd''), (''PRE'', ''file''), (''CWD'', ''a=b'')]"
  "load_error sample_dotenv_runtime sample_environ = None"
  by (simp_all add: defs_read_def workspace_defs_def cwd_defs_def load_error_def read_error_def
      candidate_roots_def sample_dotenv_runtime_def sample_runtime_def sample_environ_def
      environ_get_def dict_get_def cwd_lines_def file_defs_def py_strip_def is_space_def
      is_definition_def split_key_def split_value_def first_wins_def putenv_error_def)

lemma sample_rejecting_defs_read:
  "defs_read sample_rejecting_runtime sample_rejecting_environ =
     [(''A'', ''1''), (''B'', ''cwd''), (''C'', ''3'')]"
  "load_error sample_rejecting_runtime sample_rejecting_environ = Some OSError"
  by (simp_all add: defs_read_def workspace_defs_def cwd_defs_def load_error_def read_error_def
      candidate_roots_def sample_rejecting_runtime_def sample_runtime_def
      sample_rejecting_environ_def environ_get_def dict_get_def cwd_lines_def file_defs_def
      py_strip_def is_space_def is_definition_def split_key_def split_value_def first_wins_def
      putenv_error_def)

theorem load_env_file_first_definition_wins_witness:
  "snd (load_env_file sample_dotenv_runtime sample_environ) ''PRE'' = Some ''env'' \<and>
   snd (load_env_file sample_dotenv_runtime sample_environ) ''KEY'' = Some ''ws'' \<and>
   snd (load_env_file sample_dotenv_runtime sample_environ) ''ONLY_WS'' = Some ''1'' \<and>
   snd (load_env_file sample_dotenv_runtime sample_environ) ''CWD'' = Some ''a=b'' \<and>
   snd (load_env_file sample_dotenv_runtime sample_environ) ''THIRD'' = None \<and>
   fst (load_env_file sample_dotenv_runtime sample_environ) = None \<and>
   snd (load_env_file sample_rejecting_runtime sample_rejecting_environ) ''A'' = Some ''1'' \<and>
   snd (load_env_file sample_rejecting_runtime sample_rejecting_environ) ''B'' = Some ''cwd'' \<and>
   snd (load_env_file sample_rejecting_runtime sample_rejecting_environ) ''C'' = Some ''3'' \<and>
   snd (load_env_file sample_rejecting_runtime sample_rejecting_environ) ''D'' = None \<and>
   fst (load_env_file sample_rejecting_runtime sample_rejecting_environ) = Some OSError"
proof -
  have pre: "sample_environ ''PRE'' = Some ''env''"
    by (simp add: sample_environ_def)
  note one = load_env_file_first_definition_wins [of sample_environ sample_dotenv_runtime]
  note two = load_env_file_first_definition_wins
    [of sample_rejecting_environ sample_rejecting_runtime]
  from one pre
  have frame: "snd (load_env_file sample_dotenv_runtime sample_environ) ''PRE'' = Some ''env''"
    by blast
  from one
  have env1: "snd (load_env_file sample_dotenv_runtime sample_environ) =
      first_wins sample_environ
        [(''KEY'', ''ws''), (''ONLY_WS'', ''1''), (''KEY'', ''cwd''), (''PRE'', ''file''), (''CWD'', ''a=b'')]"
    and err1: "fst (load_env_file sample_dotenv_runtime sample_environ) = None"
    by (simp_all only: sample_defs_read)
  from two
  have env2: "snd (load_env_file sample_rejecting_runtime sample_rejecting_environ) =
      first_wins sample_rejecting_environ [(''A'', ''1''), (''B'', ''cwd''), (''C'', ''3'')]"
    and err2: "fst (load_env_file sample_rejecting_runtime sample_rejecting_environ) = Some OSError"
    by (simp_all only: sample_rejecting_defs_read)
  show ?thesis
    unfolding env1 env2 using frame err1 err2
    by (simp add: first_wins_def sample_environ_def sample_rejecting_environ_def env1)
qed

section \<open>The auto-save flag\<close>

lemma calls_emit [simp]: "calls (emit doc cs) = cs"
  and calls_crash [simp]: "calls (crash e cs) = cs"
  and stdout_emit [simp]: "stdout (emit doc cs) = [doc]"
  and stdout_crash [simp]: "stdout (crash e cs) = []"
  and exit_emit [simp]: "exit_status (emit doc cs) = 0"
  and exit_crash [simp]: "exit_status (crash e cs) = 1"
  by (simp_all add: emit_def crash_def)

lemma calls_retrieve_work:
  "calls (retrieve_work rt p cfg) =
     snd (search_memories rt p cfg) @ (if auto_save cfg then save_prompt_async rt p cfg else [])"
  by (simp add: retrieve_work_def Let_def split: sum.splits)

lemma add_attempted_retrieve_work: "list_ex is_add (calls (retrieve_work rt p cfg)) = auto_save cfg"
  by (simp add: calls_retrieve_work search_memories_def save_prompt_async_def)

lemma py_lower_true: "py_lower ''true'' = ''true''"
  by (simp add: py_lower_def lower_char_def)

lemma auto_save_get_config:
  assumes "get_config_retrieve rt env = Inr cfg"
  shows "auto_save cfg =
           (case env ''MEM0_AUTO_SAVE'' of None \<Rightarrow> True | Some v \<Rightarrow> py_lower v = ''true'')"
proof -
  from assms have "auto_save cfg = (py_lower (environ_get env ''MEM0_AUTO_SAVE'' ''true'') = ''true'')"
    by (auto simp: get_config_retrieve_def split: option.splits)
  then show ?thesis
    by (simp add: environ_get_def py_lower_true split: option.splits)
qed

lemma main_retrieve_work:
  assumes "load_env_file rt env0 = (None, env)"
    and "json_loads rt stdin = Inr d"
    and "get_prompt d = Inr p"
    and "truthy p"
    and "get_config_retrieve rt env = Inr cfg"
    and "api_key cfg \<noteq> []"
  shows "main_retrieve rt env0 stdin = retrieve_work rt p cfg"
  using assms by (simp add: main_retrieve_def)

text \<open>
  Claim C10. The \<^verbatim>\<open>auto_save\<close> flag that \<^verbatim>\<open>get_config\<close> of the retrieval hook resolves is
  true exactly when \<^verbatim>\<open>MEM0_AUTO_SAVE\<close> is unset or its value, lowercased, is \<^verbatim>\<open>true\<close>. In a
  run that reaches the search (the \<^verbatim>\<open>.env\<close> files load, the payload has a prompt, the
  API key is not empty) the hook attempts to add the prompt exactly when the flag is
  true. The witness runs the hook with the values \<^verbatim>\<open>yes\<close> and \<^verbatim>\<open>TRUE\<close>.
\<close>

theorem auto_save_flag:
  assumes "get_config_retrieve rt env = Inr cfg"
  shows "auto_save cfg =
           (case env ''MEM0_AUTO_SAVE'' of None \<Rightarrow> True | Some v \<Rightarrow> py_lower v = ''true'') \<and>
         (load_env_file rt env0 = (None, env) \<and> json_loads rt stdin = Inr d \<and>
          get_prompt d = Inr p \<and> truthy p \<and> api_key cfg \<noteq> [] \<longrightarrow>
            list_ex is_add (calls (main_retrieve rt env0 stdin)) = auto_save cfg)"
  using assms auto_save_get_config [OF assms] main_retrieve_work [of rt env0 env stdin d p cfg]
  by (simp add: add_attempted_retrieve_work)

lemma py_lower_samples:
  "py_lower ''TRUE'' = ''true''"
  "py_lower ''True'' = ''true''"
  "py_lower ''true'' = ''true''"
  "py_lower ''yes'' \<noteq> ''true''"
  "py_lower ''1'' \<noteq> ''true''"
  "py_lower ''on'' \<noteq> ''true''"
  by (simp_all add: py_lower_def lower_char_def char_of_eq_iff)

lemma load_env_file_sample:
  "env ''CURSOR_HOOK_INPUT'' = None \<Longrightarrow> load_env_file (sample_runtime parsed) env = (None, env)"
  by (simp add: load_env_file_def workspace_env_def sample_runtime_def environ_get_def
      dict_get_def)

lemma get_config_retrieve_sample:
  "env ''MEM0_TOP_K'' = None \<Longrightarrow> env ''MEM0_THRESHOLD'' = None \<Longrightarrow>
   get_config_retrieve (sample_runtime parsed) env =
     Inr \<lparr>api_key = environ_get env ''MEM0_API_KEY'' '''',
          user_id = environ_get env ''MEM0_USER_ID'' ''cursor-user'',
          top_k = 5,
          threshold = FFinite 5404319552844595 (- 54),
          auto_save = (py_lower (environ_get env ''MEM0_AUTO_SAVE'' ''true'') = ''true'')\<rparr>"
  by (simp add: get_config_retrieve_def sample_runtime_def environ_get_def)

lemma get_config_save_sample:
  "env ''MEM0_SAVE_MESSAGES'' = None \<Longrightarrow>
   get_config_save (sample_runtime parsed) env =
     Inr \<lparr>api_key = environ_get env ''MEM0_API_KEY'' '''',
          user_id = environ_get env ''MEM0_USER_ID'' ''cursor-user'',
          save_messages = 10\<rparr>"
  by (simp add: get_config_save_def sample_runtime_def environ_get_def)

lemma json_loads_sample: "s \<noteq> ''{}'' \<Longrightarrow> json_loads (sample_runtime parsed) s = parsed"
  by (simp add: sample_runtime_def)

theorem auto_save_flag_witness:
  "\<not> list_ex is_add
       (calls (main_retrieve (sample_runtime (Inr (JDict [(''prompt'', JStr ''hi'')])))
          [''MEM0_API_KEY'' \<mapsto> ''k'', ''MEM0_AUTO_SAVE'' \<mapsto> ''yes''] ''{\"prompt\": \"hi\"}'')) \<and>
   list_ex is_add
       (calls (main_retrieve (sample_runtime (Inr (JDict [(''prompt'', JStr ''hi'')])))
          [''MEM0_API_KEY'' \<mapsto> ''k'', ''MEM0_AUTO_SAVE'' \<mapsto> ''TRUE''] ''{\"prompt\": \"hi\"}''))"
proof -
  let ?d = "JDict [(''prompt'', JStr ''hi'')]"
  let ?rt = "sample_runtime (Inr ?d)"
  let ?stdin = "''{\"prompt\": \"hi\"}''"
  have parse: "json_loads ?rt ?stdin = Inr ?d"
    by (simp add: json_loads_sample)
  have prompt: "get_prompt ?d = Inr (JStr ''hi'')" and true: "truthy (JStr ''hi'')"
    by (simp_all add: get_prompt_def dict_get_def)
  have run: "list_ex is_add (calls (main_retrieve ?rt [''MEM0_API_KEY'' \<mapsto> ''k'', ''MEM0_AUTO_SAVE'' \<mapsto> v] ?stdin)) =
             (py_lower v = ''true'')" for v
  proof -
    let ?env = "[''MEM0_API_KEY'' \<mapsto> ''k'', ''MEM0_AUTO_SAVE'' \<mapsto> v]"
    let ?cfg = "\<lparr>api_key = ''k'', user_id = ''cursor-user'', top_k = 5,
                  threshold = FFinite 5404319552844595 (- 54),
                  auto_save = (py_lower v = ''true'')\<rparr>"
    have load: "load_env_file ?rt ?env = (None, ?env)"
      by (rule load_env_file_sample) simp
    have cfg: "get_config_retrieve ?rt ?env = Inr ?cfg"
      by (simp add: get_config_retrieve_sample environ_get_def)
    from auto_save_flag [OF cfg, of ?env ?stdin ?d "JStr ''hi''"] load parse prompt true
    show ?thesis by simp
  qed
  from run [of "''yes''"] run [of "''TRUE''"] show ?thesis
    by (simp add: py_lower_samples)
qed

section \<open>Malformed numeric options\<close>

lemma get_config_retrieve_malformed:
  "env ''MEM0_TOP_K'' = Some s \<and> py_int rt s = None \<or>
   env ''MEM0_THRESHOLD'' = Some s \<and> py_float rt s = None \<Longrightarrow>
   get_config_retrieve rt env = Inl ValueError"
  by (auto simp: get_config_retrieve_def environ_get_def split: option.splits)

lemma get_config_save_malformed:
  "env ''MEM0_SAVE_MESSAGES'' = Some s \<Longrightarrow> py_int rt s = None \<Longrightarrow>
   get_config_save rt env = Inl ValueError"
  by (simp add: get_config_save_def environ_get_def)

lemma main_retrieve_malformed:
  assumes bad: "env0 ''MEM0_TOP_K'' = Some s \<and> py_int rt s = None \<or>
                env0 ''MEM0_THRESHOLD'' = Some s \<and> py_float rt s = None"
    and input: "json_loads rt stdin = Inr d" "get_prompt d = Inr p" "truthy p"
  shows "stdout (main_retrieve rt env0 stdin) = [] \<and>
         exit_status (main_retrieve rt env0 stdin) = 1 \<and>
         calls (main_retrieve rt env0 stdin) = []"
proof (cases "fst (load_env_file rt env0)")
  case (Some e)
  then show ?thesis
    by (cases "load_env_file rt env0") (simp add: main_retrieve_def)
next
  case None
  let ?env = "snd (load_env_file rt env0)"
  from bad have "?env ''MEM0_TOP_K'' = Some s \<and> py_int rt s = None \<or>
                 ?env ''MEM0_THRESHOLD'' = Some s \<and> py_float rt s = None"
    by (auto intro: load_env_file_keeps)
  then have "get_config_retrieve rt ?env = Inl ValueError"
    by (rule get_config_retrieve_malformed)
  with None input show ?thesis
    by (cases "load_env_file rt env0") (simp add: main_retrieve_def)
qed

lemma main_save_malformed:
  assumes bad: "env0 ''MEM0_SAVE_MESSAGES'' = Some s" "py_int rt s = None"
    and input: "json_loads rt stdin = Inr d"
  shows "stdout (main_save rt env0 stdin) = [] \<and>
         exit_status (main_save rt env0 stdin) = 1 \<and>
         calls (main_save rt env0 stdin) = []"
proof (cases "fst (load_env_file rt env0)")
  case (Some e)
  then show ?thesis
    by (cases "load_env_file rt env0") (simp add: main_save_def)
next
  case None
  let ?env = "snd (load_env_file rt env0)"
  from bad have "get_config_save rt ?env = Inl ValueError"
    by (auto intro: get_config_save_malformed load_env_file_keeps)
  with None input show ?thesis
    by (cases "load_env_file rt env0") (simp add: main_save_def)
qed

text \<open>
  Claim C8, as the code has it. When a numeric option of a hook is set to a string that
  \<^verbatim>\<open>int\<close> or \<^verbatim>\<open>float\<close> rejects, \<^verbatim>\<open>get_config\<close> raises ValueError. A run that gets as far
  as \<^verbatim>\<open>get_config\<close> then fails: the save hook whenever standard input parses, the
  retrieval hook whenever standard input parses to a payload with a prompt. Such a run
  prints nothing, exits with status 1 and attempts no call of the memory service.
\<close>

theorem malformed_numeric_option:
  "(env ''MEM0_TOP_K'' = Some s \<and> py_int rt s = None \<or>
    env ''MEM0_THRESHOLD'' = Some s \<and> py_float rt s = None \<longrightarrow>
      get_config_retrieve rt env = Inl ValueError \<and>
      (json_loads rt stdin = Inr d \<and> get_prompt d = Inr p \<and> truthy p \<longrightarrow>
         stdout (main_retrieve rt env stdin) = [] \<and>
         exit_status (main_retrieve rt env stdin) = 1 \<and>
         calls (main_retrieve rt env stdin) = [])) \<and>
   (env ''MEM0_SAVE_MESSAGES'' = Some s \<and> py_int rt s = None \<longrightarrow>
      get_config_save rt env = Inl ValueError \<and>
      (json_loads rt stdin = Inr d \<longrightarrow>
         stdout (main_save rt env stdin) = [] \<and>
         exit_status (main_save rt env stdin) = 1 \<and>
         calls (main_save rt env stdin) = []))"
  using get_config_retrieve_malformed [of env s rt] get_config_save_malformed [of env s rt]
    main_retrieve_malformed [of env s rt stdin d p] main_save_malformed [of env s rt stdin d]
  by blast

theorem malformed_numeric_option_witness:
  "get_config_retrieve (sample_runtime (Inr (JDict [(''prompt'', JStr ''hi'')])))
     [''MEM0_API_KEY'' \<mapsto> ''k'', ''MEM0_TOP_K'' \<mapsto> ''five''] = Inl ValueError \<and>
   stdout (main_retrieve (sample_runtime (Inr (JDict [(''prompt'', JStr ''hi'')])))
     [''MEM0_API_KEY'' \<mapsto> ''k'', ''MEM0_TOP_K'' \<mapsto> ''five''] ''{\"prompt\": \"hi\"}'') = [] \<and>
   exit_status (main_retrieve (sample_runtime (Inr (JDict [(''prompt'', JStr ''hi'')])))
     [''MEM0_API_KEY'' \<mapsto> ''k'', ''MEM0_TOP_K'' \<mapsto> ''five''] ''{\"prompt\": \"hi\"}'') = 1 \<and>
   get_config_save (sample_runtime (Inr (JDict [(''prompt'', JStr ''hi'')])))
     [''MEM0_API_KEY'' \<mapsto> ''k'', ''MEM0_SAVE_MESSAGES'' \<mapsto> ''five''] = Inl ValueError \<and>
   stdout (main_save (sample_runtime (Inr (JDict [(''prompt'', JStr ''hi'')])))
     [''MEM0_API_KEY'' \<mapsto> ''k'', ''MEM0_SAVE_MESSAGES'' \<mapsto> ''five''] ''{\"prompt\": \"hi\"}'') = [] \<and>
   exit_status (main_save (sample_runtime (Inr (JDict [(''prompt'', JStr ''hi'')])))
     [''MEM0_API_KEY'' \<mapsto> ''k'', ''MEM0_SAVE_MESSAGES'' \<mapsto> ''five''] ''{\"prompt\": \"hi\"}'') = 1"
proof -
  let ?d = "JDict [(''prompt'', JStr ''hi'')]"
  let ?rt = "sample_runtime (Inr ?d)"
  let ?stdin = "''{\"prompt\": \"hi\"}''"
  have parse: "json_loads ?rt ?stdin = Inr ?d"
    by (simp add: json_loads_sample)
  have prompt: "get_prompt ?d = Inr (JStr ''hi'')" and true: "truthy (JStr ''hi'')"
    by (simp_all add: get_prompt_def dict_get_def)
  have five: "py_int ?rt ''five'' = None"
    by (simp add: sample_runtime_def)
  from malformed_numeric_option
    [of "[''MEM0_API_KEY'' \<mapsto> ''k'', ''MEM0_TOP_K'' \<mapsto> ''five'']" "''five''" ?rt ?stdin ?d
      "JStr ''hi''"]
    parse prompt true five
  have retrieve: "get_config_retrieve ?rt [''MEM0_API_KEY'' \<mapsto> ''k'', ''MEM0_TOP_K'' \<mapsto> ''five''] =
                    Inl ValueError \<and>
      stdout (main_retrieve ?rt [''MEM0_API_KEY'' \<mapsto> ''k'', ''MEM0_TOP_K'' \<mapsto> ''five''] ?stdin) = [] \<and>
      exit_status (main_retrieve ?rt [''MEM0_API_KEY'' \<mapsto> ''k'', ''MEM0_TOP_K'' \<mapsto> ''five''] ?stdin) = 1"
    by simp
  from malformed_numeric_option
    [of "[''MEM0_API_KEY'' \<mapsto> ''k'', ''MEM0_SAVE_MESSAGES'' \<mapsto> ''five'']" "''five''" ?rt ?stdin ?d
      "JStr ''hi''"]
    parse five
  have save: "get_config_save ?rt [''MEM0_API_KEY'' \<mapsto> ''k'', ''MEM0_SAVE_MESSAGES'' \<mapsto> ''five''] =
                Inl ValueError \<and>
      stdout (main_save ?rt [''MEM0_API_KEY'' \<mapsto> ''k'', ''MEM0_SAVE_MESSAGES'' \<mapsto> ''five''] ?stdin) = [] \<and>
      exit_status (main_save ?rt [''MEM0_API_KEY'' \<mapsto> ''k'', ''MEM0_SAVE_MESSAGES'' \<mapsto> ''five''] ?stdin) = 1"
    by simp
  from retrieve save show ?thesis by blast
qed

text \<open>
  Claim C8, as the specification states it, fails: with a malformed numeric option the
  hooks still print the default result when they leave before \<^verbatim>\<open>get_config\<close> runs, the
  retrieval hook on a payload without a prompt and both hooks on unparseable input.
\<close>

theorem malformed_numeric_option_counterexample:
  "get_config_retrieve (sample_runtime (Inl JSONDecodeError)) [''MEM0_TOP_K'' \<mapsto> ''five''] =
     Inl ValueError \<and>
   main_retrieve (sample_runtime (Inl JSONDecodeError)) [''MEM0_TOP_K'' \<mapsto> ''five''] ''{}'' =
     emit default_result [] \<and>
   main_retrieve (sample_runtime (Inl JSONDecodeError)) [''MEM0_TOP_K'' \<mapsto> ''five''] ''not json'' =
     emit default_result [] \<and>
   get_config_save (sample_runtime (Inl JSONDecodeError)) [''MEM0_SAVE_MESSAGES'' \<mapsto> ''five''] =
     Inl ValueError \<and>
   main_save (sample_runtime (Inl JSONDecodeError)) [''MEM0_SAVE_MESSAGES'' \<mapsto> ''five''] ''not json'' =
     emit default_result []"
  by (simp add: main_retrieve_def main_save_def load_env_file_def workspace_env_def
      get_config_retrieve_def get_config_save_def get_prompt_def dict_get_def environ_get_def
      sample_runtime_def)

section \<open>Payloads without a prompt\<close>

lemma get_prompt_none:
  "\<not> truthy (dict_get kvs ''prompt'' (JStr '''')) \<Longrightarrow>
   get_prompt (JDict kvs) = Inr (dict_get kvs ''query'' (JStr ''''))"
  by (simp add: get_prompt_def)

text \<open>
  Claim C6, as the code has it. When the \<^verbatim>\<open>.env\<close> files load and the payload is a JSON
  object whose \<^verbatim>\<open>prompt\<close> and \<^verbatim>\<open>query\<close> are each absent or false in Python's sense (the
  empty string, \<^verbatim>\<open>null\<close>, \<^verbatim>\<open>false\<close>, zero, an empty list or object), the retrieval hook
  prints the default result, exits with status 0 and attempts neither a search nor a
  save.
\<close>

theorem no_prompt_default:
  assumes "fst (load_env_file rt env0) = None"
    and "json_loads rt stdin = Inr (JDict kvs)"
    and "\<not> truthy (dict_get kvs ''prompt'' (JStr ''''))"
    and "\<not> truthy (dict_get kvs ''query'' (JStr ''''))"
  shows "main_retrieve rt env0 stdin = emit default_result [] \<and>
         stdout (main_retrieve rt env0 stdin) = [default_result] \<and>
         exit_status (main_retrieve rt env0 stdin) = 0 \<and>
         calls (main_retrieve rt env0 stdin) = []"
proof -
  from assms have "main_retrieve rt env0 stdin = emit default_result []"
    by (cases "load_env_file rt env0") (simp add: main_retrieve_def get_prompt_none)
  then show ?thesis by simp
qed

theorem no_prompt_default_witness:
  "main_retrieve
     (sample_runtime (Inr (JDict [(''prompt'', JStr ''''), (''query'', JList []), (''other'', JInt 1)])))
     [''MEM0_API_KEY'' \<mapsto> ''k''] ''{\"prompt\": \"\", \"query\": [], \"other\": 1}'' =
   emit default_result []"
proof -
  let ?kvs = "[(''prompt'', JStr ''''), (''query'', JList []), (''other'', JInt 1)]"
  let ?rt = "sample_runtime (Inr (JDict ?kvs))"
  let ?stdin = "''{\"prompt\": \"\", \"query\": [], \"other\": 1}''"
  have load: "fst (load_env_file ?rt [''MEM0_API_KEY'' \<mapsto> ''k'']) = None"
    by (simp add: load_env_file_sample)
  have parse: "json_loads ?rt ?stdin = Inr (JDict ?kvs)"
    by (simp add: json_loads_sample)
  have p: "\<not> truthy (dict_get ?kvs ''prompt'' (JStr ''''))"
    and q: "\<not> truthy (dict_get ?kvs ''query'' (JStr ''''))"
    by (simp_all add: dict_get_def)
  from no_prompt_default [OF load parse p q] show ?thesis by blast
qed

text \<open>
  Claim C6, as the specification states it, fails: the hook tests the prompt for truth,
  not for being a string. On the payload \<^verbatim>\<open>{"prompt": 5}\<close> neither field is a non-empty
  string, yet with an API key the hook searches for 5 and saves it.
\<close>

theorem no_prompt_default_counterexample:
  "dict_get [(''prompt'', JInt 5)] ''prompt'' (JStr '''') = JInt 5 \<and>
   dict_get [(''prompt'', JInt 5)] ''query'' (JStr '''') = JStr '''' \<and>
   calls (main_retrieve (sample_runtime (Inr (JDict [(''prompt'', JInt 5)])))
            [''MEM0_API_KEY'' \<mapsto> ''k''] ''{\"prompt\": 5}'') =
     [Search ''k'' (JInt 5) ''cursor-user'' 5 (FFinite 5404319552844595 (- 54)),
      Add ''k'' (JList [JDict [(''role'', JStr ''user''), (''content'', JInt 5)]]) ''cursor-user'']"
proof -
  let ?d = "JDict [(''prompt'', JInt 5)]"
  let ?rt = "sample_runtime (Inr ?d)"
  let ?env = "[''MEM0_API_KEY'' \<mapsto> ''k'']"
  let ?cfg = "\<lparr>api_key = ''k'', user_id = ''cursor-user'', top_k = 5,
                threshold = FFinite 5404319552844595 (- 54), auto_save = True\<rparr>"
  have load: "load_env_file ?rt ?env = (None, ?env)"
    by (rule load_env_file_sample) simp
  have parse: "json_loads ?rt ''{\"prompt\": 5}'' = Inr ?d"
    by (simp add: json_loads_sample)
  have prompt: "get_prompt ?d = Inr (JInt 5)"
    by (simp add: get_prompt_def dict_get_def)
  have cfg: "get_config_retrieve ?rt ?env = Inr ?cfg"
    by (simp add: get_config_retrieve_sample environ_get_def py_lower_true)
  have "main_retrieve ?rt ?env ''{\"prompt\": 5}'' = retrieve_work ?rt (JInt 5) ?cfg"
    using load parse prompt cfg by (intro main_retrieve_work) simp_all
  then have "calls (main_retrieve ?rt ?env ''{\"prompt\": 5}'') =
             [Search ''k'' (JInt 5) ''cursor-user'' 5 (FFinite 5404319552844595 (- 54)),
              Add ''k'' (JList [JDict [(''role'', JStr ''user''), (''content'', JInt 5)]]) ''cursor-user'']"
    by (simp add: calls_retrieve_work search_memories_def save_prompt_async_def)
  then show ?thesis by (simp add: dict_get_def)
qed

section \<open>How a run ends\<close>

text \<open>
  Every run of either hook prints at most one document, and a document it prints is a
  Hook Result with the action \<^verbatim>\<open>continue\<close>; the exit status is 0 exactly when a document
  is printed. Unparseable input gives the default result, and so does an empty API
  key on a payload that is an object.
\<close>

lemma well_ended_emit: "hook_result doc \<Longrightarrow> well_ended (emit doc cs)"
  by (simp add: well_ended_def emit_def)

lemma well_ended_crash: "well_ended (crash e cs)"
  by (simp add: well_ended_def crash_def)

lemma hook_result_default: "hook_result default_result"
  by (simp add: hook_result_def)

lemma well_ended_retrieve_work: "well_ended (retrieve_work rt p cfg)"
  by (auto simp: retrieve_work_def Let_def hook_result_def
      intro!: well_ended_emit well_ended_crash split: sum.splits)

lemma main_retrieve_well_ended: "well_ended (main_retrieve rt env0 stdin)"
  by (auto simp: main_retrieve_def hook_result_default well_ended_retrieve_work
      intro!: well_ended_emit well_ended_crash split: prod.splits option.splits sum.splits)

lemma main_save_well_ended: "well_ended (main_save rt env0 stdin)"
  by (auto simp: main_save_def hook_result_default
      intro!: well_ended_emit well_ended_crash split: prod.splits option.splits sum.splits)

lemma malformed_stdin_default:
  assumes "fst (load_env_file rt env0) = None"
    and "json_loads rt stdin = Inl JSONDecodeError"
  shows "main_retrieve rt env0 stdin = emit default_result [] \<and>
         main_save rt env0 stdin = emit default_result []"
  using assms
  by (cases "load_env_file rt env0") (simp add: main_retrieve_def main_save_def)

lemma empty_key_default:
  assumes "load_env_file rt env0 = (None, env)"
    and "environ_get env ''MEM0_API_KEY'' '''' = []"
    and "json_loads rt stdin = Inr (JDict kvs)"
  shows "get_config_retrieve rt env \<noteq> Inl ValueError \<Longrightarrow>
           main_retrieve rt env0 stdin = emit default_result []"
    and "get_config_save rt env \<noteq> Inl ValueError \<Longrightarrow>
           main_save rt env0 stdin = emit default_result []"
  using assms
  by (auto simp: main_retrieve_def main_save_def get_prompt_def get_config_retrieve_def
      get_config_save_def split: option.splits sum.splits)

section \<open>Payloads that are not objects\<close>

text \<open>
  The gate on the API key itself holds on every input: when the key is empty after the
  \<^verbatim>\<open>.env\<close> files are loaded, neither hook attempts a call of the memory service.
\<close>

lemma no_call_without_key:
  assumes "environ_get (snd (load_env_file rt env0)) ''MEM0_API_KEY'' '''' = []"
  shows "calls (main_retrieve rt env0 stdin) = [] \<and> calls (main_save rt env0 stdin) = []"
proof -
  obtain r env where load: "load_env_file rt env0 = (r, env)"
    by (cases "load_env_file rt env0")
  with assms have key: "environ_get env ''MEM0_API_KEY'' '''' = []"
    by simp
  have "api_key cfg = []" if "get_config_retrieve rt env = Inr cfg" for cfg
    using that key by (auto simp: get_config_retrieve_def split: option.splits)
  then have "calls (main_retrieve rt env0 stdin) = []"
    using load by (auto simp: main_retrieve_def split: option.splits sum.splits)
  moreover have "api_key cfg = []" if "get_config_save rt env = Inr cfg" for cfg
    using that key by (auto simp: get_config_save_def split: option.splits)
  then have "calls (main_save rt env0 stdin) = []"
    using load by (auto simp: main_save_def split: option.splits sum.splits)
  ultimately show ?thesis by simp
qed

text \<open>
  Claim C1 fails on the code. Standard input that is valid JSON but not an object, here
  \<^verbatim>\<open>[]\<close>, passes \<^verbatim>\<open>json.load\<close>; \<^verbatim>\<open>input_data.get\<close> then raises AttributeError, which
  nothing catches: the retrieval hook prints nothing and exits with status 1, and so
  does the save hook when an API key is set. The save hook does the same on the object
  \<^verbatim>\<open>{"transcript": [1]}\<close>, whose entry has no \<^verbatim>\<open>get\<close> either.
\<close>

theorem main_crashes_on_list_payload:
  "stdout (main_retrieve (sample_runtime (Inr (JList []))) [''MEM0_API_KEY'' \<mapsto> ''k''] ''[]'') = [] \<and>
   exit_status (main_retrieve (sample_runtime (Inr (JList []))) [''MEM0_API_KEY'' \<mapsto> ''k''] ''[]'') = 1 \<and>
   stdout (main_save (sample_runtime (Inr (JList []))) [''MEM0_API_KEY'' \<mapsto> ''k''] ''[]'') = [] \<and>
   exit_status (main_save (sample_runtime (Inr (JList []))) [''MEM0_API_KEY'' \<mapsto> ''k''] ''[]'') = 1 \<and>
   stdout (main_save (sample_runtime (Inr (JDict [(''transcript'', JList [JInt 1])])))
     [''MEM0_API_KEY'' \<mapsto> ''k''] ''{\"transcript\": [1]}'') = [] \<and>
   exit_status (main_save (sample_runtime (Inr (JDict [(''transcript'', JList [JInt 1])])))
     [''MEM0_API_KEY'' \<mapsto> ''k''] ''{\"transcript\": [1]}'') = 1"
proof -
  let ?rt = "sample_runtime (Inr (JList []))"
  let ?d = "JDict [(''transcript'', JList [JInt 1])]"
  let ?rt' = "sample_runtime (Inr ?d)"
  let ?env = "[''MEM0_API_KEY'' \<mapsto> ''k'']"
  have load: "load_env_file (sample_runtime parsed) ?env = (None, ?env)" for parsed
    by (rule load_env_file_sample) simp
  have parse: "json_loads ?rt ''[]'' = Inr (JList [])"
    and parse': "json_loads ?rt' ''{\"transcript\": [1]}'' = Inr ?d"
    by (simp_all add: json_loads_sample)
  have "main_retrieve ?rt ?env ''[]'' = crash AttributeError []"
    using load parse by (simp add: main_retrieve_def get_prompt_def)
  moreover have "main_save ?rt ?env ''[]'' = crash AttributeError []"
    using load parse
    by (simp add: main_save_def get_config_save_sample environ_get_def extract_messages_def
        get_transcript_def)
  moreover have "extract_messages ?d 10 = Inl AttributeError"
    by (simp add: extract_messages_def get_transcript_def dict_get_def tail_slice_def
        extract_entry_def)
  then have "main_save ?rt' ?env ''{\"transcript\": [1]}'' = crash AttributeError []"
    using load parse'
    by (simp add: main_save_def get_config_save_sample environ_get_def)
  ultimately show ?thesis by simp
qed

text \<open>
  Claim C2 fails on the code. With an empty API key and the input \<^verbatim>\<open>[1]\<close> the retrieval
  hook reads the prompt before it looks at the key: \<^verbatim>\<open>input_data.get\<close> raises
  AttributeError, nothing is printed and the exit status is 1. The save hook, which
  looks at the key first, prints the default result on the same input.
\<close>

theorem retrieve_crashes_without_key:
  "environ_get [''MEM0_API_KEY'' \<mapsto> ''''] ''MEM0_API_KEY'' '''' = '''' \<and>
   stdout (main_retrieve (sample_runtime (Inr (JList [JInt 1]))) [''MEM0_API_KEY'' \<mapsto> ''''] ''[1]'') = [] \<and>
   exit_status (main_retrieve (sample_runtime (Inr (JList [JInt 1]))) [''MEM0_API_KEY'' \<mapsto> ''''] ''[1]'') = 1 \<and>
   main_save (sample_runtime (Inr (JList [JInt 1]))) [''MEM0_API_KEY'' \<mapsto> ''''] ''[1]'' =
     emit default_result []"
proof -
  let ?rt = "sample_runtime (Inr (JList [JInt 1]))"
  let ?env = "[''MEM0_API_KEY'' \<mapsto> '''']"
  have load: "load_env_file ?rt ?env = (None, ?env)"
    by (rule load_env_file_sample) simp
  have parse: "json_loads ?rt ''[1]'' = Inr (JList [JInt 1])"
    by (simp add: json_loads_sample)
  have "main_retrieve ?rt ?env ''[1]'' = crash AttributeError []"
    using load parse by (simp add: main_retrieve_def get_prompt_def)
  moreover have "main_save ?rt ?env ''[1]'' = emit default_result []"
    using load parse
    by (simp add: main_save_def get_config_save_sample environ_get_def)
  ultimately show ?thesis by (simp add: crash_def environ_get_def)
qed

end
